theory Spec2Isabelle
  imports Main "HOL-Library.Sublist"
begin

section \<open>Python values\<close>

text \<open>
  The Tracker's public operations take dynamically typed arguments and test them with
  \<^verbatim>\<open>isinstance\<close> and truthiness. The values are a datatype; a float is an opaque
  carrier (the code never computes with one, it only tests its type and truthiness).
\<close>

datatype pyfloat = Finite int int | Infinite bool | NaN

datatype pyval =
    PNone
  | PBool bool
  | PInt int
  | PFloat pyfloat
  | PStr string
  | PBytes "nat list"
  | PDict "(pyval \<times> pyval) list"
  | PList "pyval list"
  | PEstimator "(string \<times> pyval) list"
  | PPlot bool
  | PObject string

text \<open>
  \<open>PDict\<close> is a dict in insertion order. \<open>PEstimator ps\<close> is an instance of sklearn's
  \<^verbatim>\<open>BaseEstimator\<close> whose \<^verbatim>\<open>get_params()\<close> returns the dict \<open>ps\<close> (parameter names are
  strings). \<open>PPlot b\<close> is a pyplot-like object whose \<^verbatim>\<open>gca().has_data()\<close> is \<open>b\<close>.
  \<open>PObject c\<close> is any other object, of class \<open>c\<close>.
\<close>

datatype pyerr =
    TypeError
  | RuntimeError
  | AttributeError
  | KeyError
  | LibraryError string

fun isinstance_str :: "pyval \<Rightarrow> bool" where
  "isinstance_str (PStr s) = True"
| "isinstance_str v = False"

text \<open>\<^verbatim>\<open>bool\<close> is a subclass of \<^verbatim>\<open>int\<close> in Python.\<close>

fun isinstance_int :: "pyval \<Rightarrow> bool" where
  "isinstance_int (PInt i) = True"
| "isinstance_int (PBool b) = True"
| "isinstance_int v = False"

fun isinstance_float :: "pyval \<Rightarrow> bool" where
  "isinstance_float (PFloat f) = True"
| "isinstance_float v = False"

fun isinstance_dict :: "pyval \<Rightarrow> bool" where
  "isinstance_dict (PDict d) = True"
| "isinstance_dict v = False"

fun isinstance_BaseEstimator :: "pyval \<Rightarrow> bool" where
  "isinstance_BaseEstimator (PEstimator ps) = True"
| "isinstance_BaseEstimator v = False"

fun truthy :: "pyval \<Rightarrow> bool" where
  "truthy PNone = False"
| "truthy (PBool b) = b"
| "truthy (PInt i) = (i \<noteq> 0)"
| "truthy (PFloat (Finite m x)) = (m \<noteq> 0)"
| "truthy (PFloat f) = True"
| "truthy (PStr s) = (s \<noteq> [])"
| "truthy (PBytes b) = (b \<noteq> [])"
| "truthy (PDict d) = (d \<noteq> [])"
| "truthy (PList l) = (l \<noteq> [])"
| "truthy v = True"

section \<open>Events, requests and effects\<close>

text \<open>
  Modelled from the spec: the members of \<^verbatim>\<open>ClientEvent\<close> (\<^verbatim>\<open>enum.py\<close> is not among
  the sources). They are the closed enumeration of event kinds of the spec's data
  model, and the ones the Tracker's code names.
\<close>

datatype ClientEvent =
    EXPERIMENT_START
  | EXPERIMENT_END
  | CODE_FILE
  | MODEL_PARAM
  | EVAL_PARAM
  | DURATION_PARAM
  | DATASET_ID

text \<open>
  An event is the dict the code puts on the queue: keys \<^verbatim>\<open>'type'\<close>, \<^verbatim>\<open>'value'\<close> and,
  for metrics and durations, \<^verbatim>\<open>'epoch'\<close> (\<open>None\<close> here when the key is absent).
\<close>

record event =
  ev_type :: ClientEvent
  ev_value :: pyval
  ev_epoch :: "pyval option"

datatype upload = Payload "nat list" | OpenFile pyval

datatype request =
    POST string "(string \<times> pyval) list" string upload
  | GET string

record response =
  status_code :: int
  content :: "nat list"
  resp_text :: string

datatype level = DEBUG | INFO | WARNING

text \<open>
  Everything an operation does besides returning is an effect, recorded in order:
  a logger call, \<^verbatim>\<open>event_queue.put\<close>, a call on the REST connection, the thread
  operations of \<^verbatim>\<open>_initialize\<close> and \<^verbatim>\<open>_on_end\<close>, \<^verbatim>\<open>atexit.register\<close>, file operations.
\<close>

datatype effect =
    Log level string
  | Put event
  | RestConnection_new string string pyval
  | CreateExperiment pyval string
  | Request request
  | WSConnectionThread_new string
  | WebSocketStart
  | WebSocketClose
  | TrackerThread_new
  | TrackerThreadStart
  | TrackerThreadStop
  | SetCurrentTracker
  | SklearnLoader
  | AtexitRegister
  | SaveFig string
  | FileOpen pyval
  | FileClose pyval
  | FileRemove string

text \<open>
  A call returns a value or raises, and leaves its effects behind either way.
\<close>

type_synonym 'a res = "(pyerr + 'a) \<times> effect list"

definition ret :: "'a \<Rightarrow> 'a res" where
  "ret x = (Inr x, [])"

definition raise :: "pyerr \<Rightarrow> 'a res" where
  "raise err = (Inl err, [])"

definition emit :: "effect \<Rightarrow> unit res" where
  "emit eff = (Inr (), [eff])"

definition lift :: "pyerr + 'a \<Rightarrow> 'a res" where
  "lift r = (r, [])"

definition bind :: "'a res \<Rightarrow> ('a \<Rightarrow> 'b res) \<Rightarrow> 'b res" where
  "bind m f =
     (case m of
        (Inl err, effs) \<Rightarrow> (Inl err, effs)
      | (Inr x, effs) \<Rightarrow> (case f x of (r, effs') \<Rightarrow> (r, effs @ effs')))"

definition seq :: "unit res \<Rightarrow> 'b res \<Rightarrow> 'b res" where
  "seq m k = bind m (\<lambda>u. k)"

text \<open>The events a list of effects puts on the queue, and the requests it issues.\<close>

fun puts :: "effect list \<Rightarrow> event list" where
  "puts [] = []"
| "puts (Put ev # effs) = ev # puts effs"
| "puts (eff # effs) = puts effs"

fun requests :: "effect list \<Rightarrow> effect list" where
  "requests [] = []"
| "requests (Request r # effs) = Request r # requests effs"
| "requests (CreateExperiment i f # effs) = CreateExperiment i f # requests effs"
| "requests (eff # effs) = requests effs"

fun thread_starts :: "effect list \<Rightarrow> effect list" where
  "thread_starts [] = []"
| "thread_starts (WebSocketStart # effs) = WebSocketStart # thread_starts effs"
| "thread_starts (TrackerThreadStart # effs) = TrackerThreadStart # thread_starts effs"
| "thread_starts (eff # effs) = thread_starts effs"

text \<open>
  \<^verbatim>\<open>event_queue\<close> is the module-level queue; producers only append to it.
\<close>

definition event_queue_after :: "event list \<Rightarrow> effect list \<Rightarrow> event list" where
  "event_queue_after q effs = q @ puts effs"

section \<open>The environment\<close>

text \<open>
  What the code reads from outside itself: the clock, the file system, the server's
  answers, and the library functions it calls (\<^verbatim>\<open>str\<close>, \<^verbatim>\<open>json\<close>, \<^verbatim>\<open>cloudpickle\<close>,
  \<^verbatim>\<open>pickle\<close>, \<^verbatim>\<open>zlib\<close>, \<^verbatim>\<open>sys.getsizeof\<close>, \<^verbatim>\<open>os.path\<close>) and the helpers of
  \<^verbatim>\<open>utils\<close> and \<^verbatim>\<open>connection_thread\<close>, which are parameters here.
\<close>

record zobj =
  z_level :: int
  z_method :: int
  z_wbits :: int
  z_consumed :: "nat list"

record env =
  str_of :: "pyval \<Rightarrow> string"
  caller_file :: "string option"
  time_at_init :: string
  time_at_exit :: string
  generate_uid :: string
  is_uuid4_pattern :: "string \<Rightarrow> bool"
  sklearn_available :: bool
  rest_project_id :: pyval
  rest_model_id :: pyval
  create_experiment :: "pyval \<Rightarrow> string \<Rightarrow> bool"
  respond :: "request \<Rightarrow> response"
  os_path_isfile :: "pyval \<Rightarrow> pyerr + bool"
  os_path_getsize :: "string \<Rightarrow> nat"
  os_path_exists :: "string \<Rightarrow> bool"
  json_dumps :: "pyval \<Rightarrow> pyerr + string"
  json_loads :: "string \<Rightarrow> pyerr + pyval"
  cloudpickle_dumps :: "pyval \<Rightarrow> int \<Rightarrow> pyerr + nat list"
  pickle_loads :: "nat list \<Rightarrow> pyerr + pyval"
  zlib_compress :: "zobj \<Rightarrow> nat list \<Rightarrow> nat list \<times> zobj"
  zlib_flush :: "zobj \<Rightarrow> nat list"
  zlib_decompress :: "nat list \<Rightarrow> int \<Rightarrow> pyerr + nat list"
  sys_getsizeof :: "nat list \<Rightarrow> nat"

text \<open>\<^verbatim>\<open>"%s" % v\<close>: a string formats as itself, anything else through \<^verbatim>\<open>str\<close>.\<close>

definition fmt_s :: "env \<Rightarrow> pyval \<Rightarrow> string" where
  "fmt_s e v = (case v of PStr s \<Rightarrow> s | _ \<Rightarrow> str_of e v)"

text \<open>\<^verbatim>\<open>'literal' + v\<close>: concatenation raises TypeError unless \<open>v\<close> is a string.\<close>

definition str_add :: "string \<Rightarrow> pyval \<Rightarrow> pyerr + string" where
  "str_add s v = (case v of PStr t \<Rightarrow> Inr (s @ t) | _ \<Rightarrow> Inl TypeError)"

section \<open>The Tracker\<close>

text \<open>
  \<^verbatim>\<open>RestConnection\<close> (\<^verbatim>\<open>connection_thread.py\<close> is not among the sources) is known
  here by what the Tracker passes to its constructor and by the two attributes the
  Tracker reads, \<^verbatim>\<open>project_id\<close> and \<^verbatim>\<open>model_id\<close>, whose values the environment gives.
  Its \<^verbatim>\<open>get\<close> and \<^verbatim>\<open>post\<close> are the environment's \<open>respond\<close>, and
  \<^verbatim>\<open>create_experiment\<close> is the environment's function of that name.
\<close>

record RestConnection =
  address :: string
  rest_key :: string
  rest_experiment_name :: pyval
  project_id :: pyval
  model_id :: pyval

record Tracker =
  key :: string
  experiment_name :: pyval
  host :: pyval
  rest :: "RestConnection option"
  tracking :: bool
  auto_log :: bool
  experiment_start :: string
  experiment_end :: "string option"
  experiment_file :: "string option"
  experiment_id :: pyval
  web_socket :: bool
  tracker_thread :: bool

text \<open>
  \<open>web_socket\<close> and \<open>tracker_thread\<close> say whether the attribute has been assigned
  (\<^verbatim>\<open>_initialize\<close> assigns them only after a successful bootstrap).
\<close>

subsection \<open>Logging operations\<close>

definition add_param :: "Tracker \<Rightarrow> pyval \<Rightarrow> pyval \<Rightarrow> pyval res" where
  "add_param self param_name param_value =
     (if \<not> isinstance_str param_name then
        seq (emit (Log WARNING ''param_name should be a string'')) (ret PNone)
      else if param_name = PStr [] then
        seq (emit (Log WARNING ''param_name cannot be empty'')) (ret PNone)
      else if \<not> tracking self then ret PNone
      else
        seq (emit (Put \<lparr>ev_type = MODEL_PARAM,
                        ev_value = PDict [(param_name, param_value)],
                        ev_epoch = None\<rparr>))
            (ret PNone))"

definition add_metric :: "Tracker \<Rightarrow> pyval \<Rightarrow> pyval \<Rightarrow> pyval \<Rightarrow> pyval res" where
  "add_metric self metric_name metric_value epoch =
     (if \<not> isinstance_str metric_name then
        seq (emit (Log WARNING ''metric_name should be a string'')) (ret PNone)
      else if metric_name = PStr [] then
        seq (emit (Log WARNING ''metric_name cannot be empty'')) (ret PNone)
      else if \<not> (isinstance_int metric_value \<or> isinstance_float metric_value) then
        seq (emit (Log WARNING ''metric_value should be a number'')) (ret PNone)
      else if epoch \<noteq> PNone \<and> \<not> (isinstance_int epoch \<or> isinstance_float epoch) then
        seq (emit (Log WARNING ''epoch should be a number'')) (ret PNone)
      else if \<not> tracking self then ret PNone
      else
        seq (emit (Put \<lparr>ev_type = EVAL_PARAM,
                        ev_value = PDict [(metric_name, metric_value)],
                        ev_epoch = Some epoch\<rparr>))
            (ret PNone))"

definition add_duration_at_epoch :: "Tracker \<Rightarrow> pyval \<Rightarrow> pyval \<Rightarrow> pyval \<Rightarrow> pyval res" where
  "add_duration_at_epoch self tag seconds_elapsed epoch =
     (if \<not> isinstance_str tag then
        seq (emit (Log WARNING ''tag should be a string'')) (ret PNone)
      else if tag = PStr [] then
        seq (emit (Log WARNING ''tag cannot be empty'')) (ret PNone)
      else if \<not> (isinstance_int seconds_elapsed \<or> isinstance_float seconds_elapsed) then
        seq (emit (Log WARNING ''seconds_elapsed should be a number'')) (ret PNone)
      else if epoch = PNone then
        seq (emit (Log WARNING ''epoch should be present'')) (ret PNone)
      else if epoch \<noteq> PNone \<and> \<not> (isinstance_int epoch \<or> isinstance_float epoch) then
        seq (emit (Log WARNING ''epoch should be a number'')) (ret PNone)
      else if \<not> tracking self then ret PNone
      else
        seq (emit (Put \<lparr>ev_type = DURATION_PARAM,
                        ev_value = PDict [(tag, seconds_elapsed)],
                        ev_epoch = Some epoch\<rparr>))
            (ret PNone))"

definition add_dataset_id :: "Tracker \<Rightarrow> pyval \<Rightarrow> pyval res" where
  "add_dataset_id self dataset_id =
     (if \<not> (isinstance_int dataset_id \<or> isinstance_float dataset_id \<or>
             isinstance_str dataset_id) then
        seq (emit (Log WARNING ''Dataset id should be a number or string'')) (ret PNone)
      else if \<not> tracking self then ret PNone
      else
        seq (emit (Put \<lparr>ev_type = DATASET_ID, ev_value = dataset_id, ev_epoch = None\<rparr>))
            (ret PNone))"

subsection \<open>Artifact upload and pull-back\<close>

text \<open>
  \<^verbatim>\<open>zlib.compressobj(level, method, wbits)\<close>: a fresh compression object. What
  \<^verbatim>\<open>compress\<close> and \<^verbatim>\<open>flush\<close> write for it is the library's business.
\<close>

definition zlib_compressobj :: "int \<Rightarrow> int \<Rightarrow> int \<Rightarrow> zobj" where
  "zlib_compressobj lvl method wbits =
     \<lparr>z_level = lvl, z_method = method, z_wbits = wbits, z_consumed = []\<rparr>"

definition zlib_DEFLATED :: int where
  "zlib_DEFLATED = 8"

definition get_compressed_picke :: "env \<Rightarrow> pyval \<Rightarrow> (nat list \<times> nat) res" where
  "get_compressed_picke e obj =
     bind (lift (cloudpickle_dumps e obj (- 1))) (\<lambda>pickled_obj.
       let z = zlib_compressobj (- 1) zlib_DEFLATED 31;
           filesize = sys_getsizeof e pickled_obj;
           (out, z') = zlib_compress e z pickled_obj;
           gzip_compressed_pickle = out @ zlib_flush e z'
       in ret (gzip_compressed_pickle, filesize))"

definition add_custom_object :: "env \<Rightarrow> Tracker \<Rightarrow> pyval \<Rightarrow> pyval \<Rightarrow> pyval res" where
  "add_custom_object e self name object =
     (if \<not> isinstance_str name then
        seq (emit (Log WARNING ''Custom object name should be a string'')) (ret PNone)
      else case rest self of
        None \<Rightarrow>
          seq (emit (Log INFO
                 ''Please instantiate the ModelChimp Tracker to store custom objects''))
              (ret PNone)
      | Some r \<Rightarrow>
          if \<not> tracking self then ret PNone
          else
            bind (get_compressed_picke e object) (\<lambda>(compressed_object, filesize).
              let result = [(''name'', name),
                            (''filesize'', PInt (int filesize)),
                            (''project'', project_id r),
                            (''ml_model'', model_id r)];
                  custom_object_url =
                    ''api/experiment-custom-object/create/'' @ fmt_s e (project_id r) @ ''/'';
                  req = POST custom_object_url result ''custom_object_file''
                          (Payload compressed_object)
              in
              seq (emit (Log INFO (''Uploading custom object: '' @ fmt_s e name)))
             (seq (emit (Request req))
                  (if status_code (respond e req) = 201 then
                     seq (emit (Log INFO
                            (fmt_s e name @ '': custom object was successfully saved'')))
                         (ret PNone)
                   else
                     seq (emit (Log INFO ''Custom object could not be saved.''))
                         (ret PNone)))))"

definition pull_custom_object :: "env \<Rightarrow> Tracker \<Rightarrow> pyval \<Rightarrow> pyval res" where
  "pull_custom_object e self obj_id =
     (case rest self of
        None \<Rightarrow> raise AttributeError
      | Some r \<Rightarrow>
          let pull_object_url =
                ''api/experiment-custom-object/retrieve/'' @ fmt_s e (project_id r) @
                ''/?custom-object-id='' @ fmt_s e obj_id
          in
          case obj_id of
            PStr s \<Rightarrow>
              if \<not> is_uuid4_pattern e s then
                seq (emit (Log WARNING
                  ''Given custom object id is of wrong pattern. Please, insert the correct id''))
                    (ret PNone)
              else if \<not> tracking self then ret PNone
              else
                seq (emit (Log INFO (''Downloading custom object with the id: '' @ s)))
               (seq (emit (Request (GET pull_object_url)))
                 (let request = respond e (GET pull_object_url) in
                  seq (if status_code request = 400 then
                         emit (Log INFO
                           ''Unable to retrieve custom object. Is it a valid custom object id?'')
                       else ret ())
                      (bind (lift (zlib_decompress e (content request) 31)) (\<lambda>custom_object.
                         lift (pickle_loads e custom_object)))))
          | _ \<Rightarrow>
              seq (emit (Log WARNING ''Custom object id should be a string'')) (ret PNone))"

text \<open>
  \<^verbatim>\<open>str.strip()\<close> removes leading and trailing whitespace.
\<close>

definition is_space :: "char \<Rightarrow> bool" where
  "is_space c = (c \<in> set [CHR '' '', CHR 0x09, CHR 0x0A, CHR 0x0B, CHR 0x0C, CHR 0x0D,
                           CHR 0x1C, CHR 0x1D, CHR 0x1E, CHR 0x1F])"

definition strip :: "string \<Rightarrow> string" where
  "strip s = rev (dropWhile is_space (rev (dropWhile is_space s)))"

definition add_custom_plot :: "env \<Rightarrow> Tracker \<Rightarrow> pyval \<Rightarrow> pyval \<Rightarrow> pyval res" where
  "add_custom_plot e self name plt =
     (case name of
        PStr n \<Rightarrow>
          (case rest self of
             None \<Rightarrow>
               seq (emit (Log INFO
                      ''Please instantiate the ModelChimp Tracker to store custom plots''))
                   (ret PNone)
           | Some r \<Rightarrow>
               if \<not> tracking self then ret PNone
               else case plt of
                 PPlot has_data \<Rightarrow>
                   if has_data = False then
                     seq (emit (Log WARNING ''Empty plot'')) (ret PNone)
                   else
                     let filepath = strip (''./'' @ n @ ''.svg'');
                         filesize = os_path_getsize e filepath;
                         result = [(''name'', name),
                                   (''filesize'', PInt (int filesize)),
                                   (''project'', project_id r),
                                   (''ml_model'', model_id r)];
                         mat_plot_url =
                           ''api/experiment-mat-plot/create/'' @ fmt_s e (project_id r) @ ''/'';
                         req = POST mat_plot_url result ''mat_plot_file''
                                 (OpenFile (PStr filepath))
                     in
                     seq (emit (SaveFig filepath))
                    (seq (emit (FileOpen (PStr filepath)))
                    (seq (emit (Log INFO (''Uploading custom plot: '' @ n)))
                    (seq (emit (Request req))
                    (seq (emit (FileClose (PStr filepath)))
                    (seq (if status_code (respond e req) = 201 then
                            emit (Log INFO (n @ '': custom plot was successfully saved''))
                          else emit (Log INFO ''Custom plot could not be saved.''))
                         (if os_path_exists e filepath then
                            seq (emit (Log DEBUG ''Removing temporary file.''))
                           (seq (emit (FileRemove filepath)) (ret PNone))
                          else ret PNone))))))
               | _ \<Rightarrow> raise AttributeError)
      | _ \<Rightarrow> seq (emit (Log WARNING ''Custom plot name should be a string'')) (ret PNone))"

definition pull_params :: "env \<Rightarrow> Tracker \<Rightarrow> pyval \<Rightarrow> pyval res" where
  "pull_params e self exp_id =
     bind (lift (str_add ''api/experiment-pull-param/?experiment-id='' exp_id))
       (\<lambda>pull_params_url.
         if \<not> isinstance_str exp_id then
           seq (emit (Log WARNING ''experiment_id should be a string'')) (ret PNone)
         else if \<not> tracking self then ret PNone
         else case rest self of
           None \<Rightarrow> raise AttributeError
         | Some r \<Rightarrow>
             seq (emit (Request (GET pull_params_url)))
               (let request = respond e (GET pull_params_url) in
                if status_code request = 400 then
                  seq (emit (Log INFO ''Have you provided the correct experiment id?''))
                      (ret PNone)
                else if status_code request = 403 then
                  seq (emit (Log INFO ''You don't have permission for this experiment''))
                      (ret PNone)
                else lift (json_loads e (resp_text request))))"

text \<open>
  The loop of \<^verbatim>\<open>add_image\<close> over \<^verbatim>\<open>metric_dict\<close> deletes the entry it is looking at
  when its value is not a number; the dict has then changed size, and the iterator
  raises RuntimeError when the loop asks it for the next key.
\<close>

fun check_metrics :: "env \<Rightarrow> (pyval \<times> pyval) list \<Rightarrow> unit res" where
  "check_metrics e [] = ret ()"
| "check_metrics e ((k, v) # kvs) =
     (if \<not> (isinstance_int v \<or> isinstance_float v) then
        seq (emit (Log WARNING (''Metric - '' @ fmt_s e k @ '' is not a number'')))
            (raise RuntimeError)
      else check_metrics e kvs)"

definition add_image ::
  "env \<Rightarrow> Tracker \<Rightarrow> pyval \<Rightarrow> pyval \<Rightarrow> pyval \<Rightarrow> pyval \<Rightarrow> pyval res" where
  "add_image e self filepath metric_dict custom_file_name epoch =
     (let url = ''api/experiment-images/add-image/'' in
      bind (lift (os_path_isfile e filepath)) (\<lambda>is_file.
        if \<not> is_file then
          seq (emit (Log WARNING (''Image file does not exist at '' @ fmt_s e filepath)))
              (ret PNone)
        else if truthy metric_dict \<and> \<not> isinstance_dict metric_dict then
          seq (emit (Log WARNING
                 (''metric_dict should be a dictionary for file: '' @ fmt_s e filepath)))
              (ret PNone)
        else
          seq (case metric_dict of
                 PDict kvs \<Rightarrow> (if truthy metric_dict then check_metrics e kvs else ret ())
               | _ \<Rightarrow> ret ())
            (if truthy custom_file_name \<and> \<not> isinstance_str custom_file_name then
               seq (emit (Log WARNING
                      (''custom_file_name should be a string for file: '' @ fmt_s e filepath)))
                   (ret PNone)
             else if truthy epoch \<and> \<not> isinstance_int epoch then
               seq (emit (Log WARNING
                      (''epoch should be a dictionary for file: '' @ fmt_s e filepath)))
                   (ret PNone)
             else case rest self of
               None \<Rightarrow>
                 seq (emit (Log INFO
                        ''Please instantiate the ModelChimp Tracker to store images''))
                     (ret PNone)
             | Some r \<Rightarrow>
                 if \<not> tracking self then ret PNone
                 else
                   bind (lift (json_dumps e metric_dict)) (\<lambda>dumped.
                     let result = [(''custom_file_name'', custom_file_name),
                                   (''metric_dict'', PStr dumped),
                                   (''epoch'', epoch),
                                   (''project'', project_id r),
                                   (''ml_model'', model_id r)];
                         req = POST (url @ fmt_s e (project_id r) @ ''/'') result
                                 ''experiment_image'' (OpenFile filepath)
                     in
                     seq (emit (Log INFO (''Uploading image: '' @ fmt_s e filepath)))
                    (seq (emit (FileOpen filepath))
                    (seq (emit (Request req))
                    (seq (emit (FileClose filepath))
                         (if status_code (respond e req) \<noteq> 201 then
                            seq (emit (Log INFO
                                   (''Image could not be saved: '' @ fmt_s e filepath)))
                                (ret PNone)
                          else ret PNone))))))))"

subsection \<open>Parameters of a model object\<close>

text \<open>
  Dict operations on the insertion-ordered representation: \<^verbatim>\<open>d[k]\<close> raises KeyError
  for a missing key; \<^verbatim>\<open>d[k] = v\<close> overwrites in place or appends.
\<close>

fun dict_get :: "(pyval \<times> pyval) list \<Rightarrow> pyval \<Rightarrow> pyerr + pyval" where
  "dict_get [] k = Inl KeyError"
| "dict_get ((k', v') # d) k = (if k' = k then Inr v' else dict_get d k)"

fun dict_set :: "(pyval \<times> pyval) list \<Rightarrow> pyval \<Rightarrow> pyval \<Rightarrow> (pyval \<times> pyval) list" where
  "dict_set [] k v = [(k, v)]"
| "dict_set ((k', v') # d) k v =
     (if k' = k then (k', v) # d else (k', v') # dict_set d k v)"

fun add_multiple_params_loop ::
  "Tracker \<Rightarrow> (pyval \<times> pyval) list \<Rightarrow> pyval list \<Rightarrow> unit res" where
  "add_multiple_params_loop self d [] = ret ()"
| "add_multiple_params_loop self d (k # ks) =
     bind (lift (dict_get d k)) (\<lambda>v.
       bind (add_param self k v) (\<lambda>r. add_multiple_params_loop self d ks))"

definition add_multiple_params :: "Tracker \<Rightarrow> pyval \<Rightarrow> pyval res" where
  "add_multiple_params self params_dict =
     (case params_dict of
        PDict d \<Rightarrow>
          if \<not> tracking self then ret PNone
          else seq (add_multiple_params_loop self d (map fst d)) (ret PNone)
      | _ \<Rightarrow>
          seq (emit (Log WARNING ''Please provide a dict for multiple parameters''))
              (ret PNone))"

text \<open>\<^verbatim>\<open>model.get_params()\<close> of an sklearn estimator: a dict keyed by parameter name.\<close>

definition get_params :: "(string \<times> pyval) list \<Rightarrow> (pyval \<times> pyval) list" where
  "get_params ps = map (\<lambda>(k, v). (PStr k, v)) ps"

fun prefix_loop ::
  "env \<Rightarrow> pyval \<Rightarrow> (pyval \<times> pyval) list \<Rightarrow> pyval list \<Rightarrow> (pyval \<times> pyval) list
     \<Rightarrow> pyerr + (pyval \<times> pyval) list" where
  "prefix_loop e model_name params [] result = Inr result"
| "prefix_loop e model_name params (k # ks) result =
     (case dict_get params k of
        Inl err \<Rightarrow> Inl err
      | Inr v \<Rightarrow>
          (let new_key_name = fmt_s e model_name @ ''__'' @ fmt_s e k
           in prefix_loop e model_name params ks (dict_set result (PStr new_key_name) v)))"

definition add_model_params :: "env \<Rightarrow> Tracker \<Rightarrow> pyval \<Rightarrow> pyval \<Rightarrow> pyval res" where
  "add_model_params e self model model_name =
     (if truthy model_name \<and> \<not> isinstance_str model_name then
        seq (emit (Log WARNING ''add_model_params: model_name should be a string''))
            (ret PNone)
      else if \<not> sklearn_available e then
        seq (emit (Log WARNING ''add_model_params: sklearn models only'')) (ret PNone)
      else case model of
        PEstimator ps \<Rightarrow>
          if \<not> tracking self then ret PNone
          else
            (let params = get_params ps in
             bind (lift (if truthy model_name
                         then prefix_loop e model_name params (map fst params) []
                         else Inr params))
               (\<lambda>result. add_multiple_params self (PDict result)))
      | _ \<Rightarrow>
          seq (emit (Log WARNING ''add_model_params: model is not supported'')) (ret PNone))"

subsection \<open>Construction and the exit callback\<close>

definition initialize :: "env \<Rightarrow> Tracker \<Rightarrow> Tracker res" where
  "initialize e self =
     (case caller_file e of
        None \<Rightarrow> raise AttributeError
      | Some file \<Rightarrow>
          let rest_address = fmt_s e (host self) @ ''/'';
              ws_address = fmt_s e (host self) @ ''/ws/tracker/'' @
                           fmt_s e (experiment_id self) @ ''/'';
              self1 = self\<lparr>experiment_file := Some file,
                          rest := Some \<lparr>address = rest_address,
                                        rest_key = key self,
                                        rest_experiment_name = experiment_name self,
                                        project_id = rest_project_id e,
                                        model_id = rest_model_id e\<rparr>\<rparr>
          in
          seq (emit (RestConnection_new rest_address (key self) (experiment_name self)))
            (if \<not> tracking self1 then ret self1
             else
               seq (emit (CreateExperiment (experiment_id self1) file))
                 (if \<not> create_experiment e (experiment_id self1) file then ret self1
                  else
                    seq (emit (WSConnectionThread_new ws_address))
                   (seq (emit WebSocketStart)
                   (seq (emit TrackerThread_new)
                   (seq (emit TrackerThreadStart)
                   (seq (emit (Put \<lparr>ev_type = EXPERIMENT_START,
                                    ev_value = PStr (experiment_start self1),
                                    ev_epoch = None\<rparr>))
                   (seq (emit (Put \<lparr>ev_type = CODE_FILE,
                                    ev_value = PDict [(PStr ''filename'', PStr file),
                                                      (PStr ''experiment_id'',
                                                       experiment_id self1)],
                                    ev_epoch = None\<rparr>))
                   (seq (emit SetCurrentTracker)
                   (seq (if auto_log self1 then emit SklearnLoader else ret ())
                   (seq (emit AtexitRegister)
                        (ret (self1\<lparr>web_socket := True,
                                    tracker_thread := True\<rparr>)))))))))))))"

definition Tracker_init ::
  "env \<Rightarrow> string \<Rightarrow> pyval \<Rightarrow> pyval \<Rightarrow> bool \<Rightarrow> bool \<Rightarrow> pyval \<Rightarrow> Tracker res" where
  "Tracker_init e k h name trk alog existing_exp_id =
     initialize e
       \<lparr>key = k, experiment_name = name, host = h, rest = None, tracking = trk,
        auto_log = alog, experiment_start = time_at_init e, experiment_end = None,
        experiment_file = None,
        experiment_id = (if truthy existing_exp_id then existing_exp_id
                         else PStr (generate_uid e)),
        web_socket = False, tracker_thread = False\<rparr>"

text \<open>
  Modelled from the spec: \<^verbatim>\<open>TrackerThread.stop()\<close> (\<^verbatim>\<open>tracker_thread.py\<close> is not
  among the sources). The dispatcher's \<^verbatim>\<open>stop()\<close> sets the shutdown flag, drains the
  queue, closes the transports and returns; at this level it is the stop of the
  dispatcher thread followed by the close of the streaming transport.
\<close>

definition TrackerThread_stop :: "unit res" where
  "TrackerThread_stop = seq (emit TrackerThreadStop) (seq (emit WebSocketClose) (ret ()))"

definition on_end :: "env \<Rightarrow> Tracker \<Rightarrow> Tracker \<times> unit res" where
  "on_end e self =
     (let self1 = self\<lparr>experiment_end := Some (time_at_exit e)\<rparr>
      in (self1,
          seq (emit (Put \<lparr>ev_type = EXPERIMENT_END,
                          ev_value = PStr (time_at_exit e),
                          ev_epoch = None\<rparr>))
              (if tracker_thread self1 then TrackerThread_stop
               else raise AttributeError)))"

subsection \<open>A process that uses a Tracker\<close>

text \<open>
  The instrumented program constructs a Tracker, makes calls on it and exits. A call
  that raises ends the program unless the program catches the exception (\<open>Try\<close>).
  At exit, Python's \<^verbatim>\<open>atexit\<close> runs every registered callback once per registration;
  the only callback this code registers is the Tracker's \<^verbatim>\<open>_on_end\<close>.
\<close>

datatype call =
    Add_param pyval pyval
  | Add_multiple_params pyval
  | Add_metric pyval pyval pyval
  | Add_duration_at_epoch pyval pyval pyval
  | Add_dataset_id pyval
  | Add_custom_object pyval pyval
  | Pull_custom_object pyval
  | Add_custom_plot pyval pyval
  | Pull_params pyval
  | Add_image pyval pyval pyval pyval
  | Add_model_params pyval pyval

datatype step = Call call | Try call

fun do_call :: "env \<Rightarrow> Tracker \<Rightarrow> call \<Rightarrow> pyval res" where
  "do_call e self (Add_param n v) = add_param self n v"
| "do_call e self (Add_multiple_params d) = add_multiple_params self d"
| "do_call e self (Add_metric n v ep) = add_metric self n v ep"
| "do_call e self (Add_duration_at_epoch t s ep) = add_duration_at_epoch self t s ep"
| "do_call e self (Add_dataset_id i) = add_dataset_id self i"
| "do_call e self (Add_custom_object n obj) = add_custom_object e self n obj"
| "do_call e self (Pull_custom_object i) = pull_custom_object e self i"
| "do_call e self (Add_custom_plot n plt) = add_custom_plot e self n plt"
| "do_call e self (Pull_params i) = pull_params e self i"
| "do_call e self (Add_image f md cfn ep) = add_image e self f md cfn ep"
| "do_call e self (Add_model_params m mn) = add_model_params e self m mn"

fun run_steps :: "env \<Rightarrow> Tracker \<Rightarrow> step list \<Rightarrow> effect list" where
  "run_steps e self [] = []"
| "run_steps e self (Call c # ss) =
     (case do_call e self c of
        (Inl err, effs) \<Rightarrow> effs
      | (Inr v, effs) \<Rightarrow> effs @ run_steps e self ss)"
| "run_steps e self (Try c # ss) = snd (do_call e self c) @ run_steps e self ss"

fun atexit_run :: "env \<Rightarrow> Tracker \<Rightarrow> nat \<Rightarrow> Tracker \<times> effect list" where
  "atexit_run e self 0 = (self, [])"
| "atexit_run e self (Suc n) =
     (case on_end e self of
        (self1, (r, effs)) \<Rightarrow>
          (case atexit_run e self1 n of (self2, effs') \<Rightarrow> (self2, effs @ effs')))"

record execution =
  init_trace :: "effect list"
  calls_trace :: "effect list"
  exit_trace :: "effect list"
  on_end_runs :: nat
  tracker_at_exit :: "Tracker option"
  tracker_after_exit :: "Tracker option"

definition run_program ::
  "env \<Rightarrow> string \<Rightarrow> pyval \<Rightarrow> pyval \<Rightarrow> bool \<Rightarrow> bool \<Rightarrow> pyval \<Rightarrow> step list \<Rightarrow> execution" where
  "run_program e k h name trk alog existing_exp_id steps =
     (case Tracker_init e k h name trk alog existing_exp_id of
        (Inl err, effs) \<Rightarrow>
          \<lparr>init_trace = effs, calls_trace = [], exit_trace = [], on_end_runs = 0,
           tracker_at_exit = None, tracker_after_exit = None\<rparr>
      | (Inr self, effs) \<Rightarrow>
          (let ceffs = run_steps e self steps;
               n = count_list (effs @ ceffs) AtexitRegister
           in case atexit_run e self n of
                (self1, xeffs) \<Rightarrow>
                  \<lparr>init_trace = effs, calls_trace = ceffs, exit_trace = xeffs,
                   on_end_runs = n,
                   tracker_at_exit = Some self, tracker_after_exit = Some self1\<rparr>))"

definition whole_trace :: "execution \<Rightarrow> effect list" where
  "whole_trace x = init_trace x @ calls_trace x @ exit_trace x"

fun thread_stops :: "effect list \<Rightarrow> effect list" where
  "thread_stops [] = []"
| "thread_stops (TrackerThreadStop # effs) = TrackerThreadStop # thread_stops effs"
| "thread_stops (WebSocketClose # effs) = WebSocketClose # thread_stops effs"
| "thread_stops (eff # effs) = thread_stops effs"

section \<open>The queue, the dispatcher and the streaming transport\<close>

text \<open>
  Modelled from the spec: the event queue (\<^verbatim>\<open>event_queue.py\<close> is not among the
  sources). The queue is an ordered, unbounded sequence of events; \<open>enqueue\<close> assigns
  the \<open>sequence_number\<close> under the same mutual exclusion as the insertion; removal is
  strictly FIFO and only the dispatcher removes.
\<close>

record queued =
  q_event :: event
  sequence_number :: nat

record EventQueue =
  items :: "queued list"
  next_sequence_number :: nat

text \<open>Modelled from the spec: the queue of a new experiment, with nothing enqueued.\<close>

definition empty_queue :: EventQueue where
  "empty_queue = \<lparr>items = [], next_sequence_number = 0\<rparr>"

text \<open>
  Modelled from the spec: \<open>enqueue\<close> appends the event and gives it the next
  sequence number, in one atomic step.
\<close>

definition enqueue :: "event \<Rightarrow> EventQueue \<Rightarrow> EventQueue" where
  "enqueue ev q =
     \<lparr>items = items q @ [\<lparr>q_event = ev, sequence_number = next_sequence_number q\<rparr>],
      next_sequence_number = Suc (next_sequence_number q)\<rparr>"

text \<open>
  Modelled from the spec: the consumer's dequeue takes the oldest event; on an empty
  queue it gives the sentinel (\<open>None\<close>).
\<close>

definition dequeue :: "EventQueue \<Rightarrow> (queued \<times> EventQueue) option" where
  "dequeue q =
     (case items q of
        [] \<Rightarrow> None
      | x # xs \<Rightarrow> Some (x, q\<lparr>items := xs\<rparr>))"

text \<open>
  Modelled from the spec: producers. Any number of producer threads call \<open>enqueue\<close>;
  each call is atomic under the queue's lock, so a concurrent run is a sequence of
  (producer, event) pairs in the order the lock was taken: the enqueue order.
\<close>

fun enqueue_all :: "(nat \<times> event) list \<Rightarrow> EventQueue \<Rightarrow> EventQueue" where
  "enqueue_all [] q = q"
| "enqueue_all ((producer, ev) # calls) q = enqueue_all calls (enqueue ev q)"

text \<open>
  Modelled from the spec: the connection state of the streaming transport
  (\<^verbatim>\<open>connection_thread.py\<close> is not among the sources). The state is mutated only by
  the transport's own maintenance logic and read by the dispatcher, so the dispatcher
  sees it as a function of its loop iteration.
\<close>

datatype connection_state = DISCONNECTED | CONNECTING | CONNECTED | RECONNECTING | CLOSED

text \<open>
  Modelled from the spec: the dispatcher's delivery attempt (\<^verbatim>\<open>tracker_thread.py\<close> is
  not among the sources). If the state is \<open>CONNECTED\<close> the event is sent at once; if
  the transport is \<open>CLOSED\<close> the dispatcher logs and continues; otherwise (the
  transport is connecting or reconnecting; a transport not yet connected is treated
  the same way) the event is held and re-attempted on the next iteration, a bounded
  number of times, and then dropped. The result is the events handed to \<open>send\<close> and
  the next iteration.
\<close>

fun attempt ::
  "(nat \<Rightarrow> connection_state) \<Rightarrow> nat \<Rightarrow> nat \<Rightarrow> queued \<Rightarrow> queued list \<times> nat" where
  "attempt conn i 0 x = ([], i)"
| "attempt conn i (Suc spins) x =
     (case conn i of
        CONNECTED \<Rightarrow> ([x], Suc i)
      | CLOSED \<Rightarrow> ([], Suc i)
      | _ \<Rightarrow> attempt conn (Suc i) spins x)"

text \<open>
  Modelled from the spec: the dispatcher loop, draining the queue: dequeue the next
  event, attempt its delivery, go on until the queue is empty.
\<close>

function dispatcher_loop ::
  "(nat \<Rightarrow> connection_state) \<Rightarrow> nat \<Rightarrow> nat \<Rightarrow> EventQueue \<Rightarrow> queued list" where
  "dispatcher_loop conn spins i q =
     (case dequeue q of
        None \<Rightarrow> []
      | Some (x, q') \<Rightarrow>
          (case attempt conn i spins x of
             (sent, i') \<Rightarrow> sent @ dispatcher_loop conn spins i' q'))"
  by pat_completeness auto
termination
  by (relation "measure (\<lambda>(conn, spins, i, q). length (items q))")
     (auto simp: dequeue_def split: list.splits)

declare dispatcher_loop.simps [simp del]

section \<open>Vocabulary of the statements\<close>

text \<open>\<open>only P m\<close>: every effect of the call \<open>m\<close> satisfies \<open>P\<close>.\<close>

definition only :: "(effect \<Rightarrow> bool) \<Rightarrow> 'a res \<Rightarrow> bool" where
  "only P m = list_all P (snd m)"

text \<open>The kinds of effect a public operation can have: logging, a put, a request, file
  operations; never a thread operation or a registration.\<close>

fun call_effect :: "effect \<Rightarrow> bool" where
  "call_effect (Log l m) = True"
| "call_effect (Put ev) = True"
| "call_effect (Request r) = True"
| "call_effect (SaveFig p) = True"
| "call_effect (FileOpen p) = True"
| "call_effect (FileClose p) = True"
| "call_effect (FileRemove p) = True"
| "call_effect eff = False"

fun is_log :: "effect \<Rightarrow> bool" where
  "is_log (Log l m) = True"
| "is_log eff = False"

text \<open>\<open>covers P self\<close>: \<open>P\<close> admits every logger call and, when the Tracker is
  tracking, every effect a public operation can have.\<close>

definition covers :: "(effect \<Rightarrow> bool) \<Rightarrow> Tracker \<Rightarrow> bool" where
  "covers P self =
     ((\<forall>l m. P (Log l m)) \<and> (tracking self \<longrightarrow> (\<forall>x. call_effect x \<longrightarrow> P x)))"

text \<open>The malformed arguments of the logging operations, as the code tests them.\<close>

definition malformed_name :: "pyval \<Rightarrow> bool" where
  "malformed_name v = (if isinstance_str v then v = PStr [] else True)"

definition not_a_number :: "pyval \<Rightarrow> bool" where
  "not_a_number v =
     (if isinstance_int v then False else if isinstance_float v then False else True)"

text \<open>
  The events that separate \<^verbatim>\<open>add_param(k, v)\<close> calls would enqueue for the extracted
  parameters: the key is \<^verbatim>\<open>model_name__k\<close> when a model name is given, and \<open>k\<close>
  otherwise.
\<close>

definition spec_key :: "pyval \<Rightarrow> string \<Rightarrow> string" where
  "spec_key model_name k =
     (case model_name of
        PStr n \<Rightarrow> (if n = [] then k else n @ ''__'' @ k)
      | _ \<Rightarrow> k)"

definition spec_add_model_params :: "Tracker \<Rightarrow> (string \<times> pyval) list \<Rightarrow> pyval \<Rightarrow> event list" where
  "spec_add_model_params self ps model_name =
     concat (map (\<lambda>(k, v). puts (snd (add_param self (PStr (spec_key model_name k)) v))) ps)"

text \<open>
  An example environment: a server that answers 201 to everything, one image file,
  and toy libraries. The toy pickler handles bytes objects only; the toy compressor
  writes the \<^verbatim>\<open>wbits\<close> it was created with in front of the data, and the toy
  decompressor accepts a stream only when asked for the same \<^verbatim>\<open>wbits\<close>.
\<close>

definition example_env :: env where
  "example_env =
     \<lparr>str_of = (\<lambda>v. ''<object>''),
      caller_file = Some ''train.py'',
      time_at_init = ''2019-01-01 10:00:00'',
      time_at_exit = ''2019-01-01 11:00:00'',
      generate_uid = ''uid-1'',
      is_uuid4_pattern = (\<lambda>s. length s = 36),
      sklearn_available = True,
      rest_project_id = PInt 7,
      rest_model_id = PInt 3,
      create_experiment = (\<lambda>i f. True),
      respond = (\<lambda>r. \<lparr>status_code = 201, content = [], resp_text = ''{}''\<rparr>),
      os_path_isfile = (\<lambda>v. case v of
                           PStr s \<Rightarrow> Inr (s = ''img.png'')
                         | PInt i \<Rightarrow> Inr False
                         | PBool b \<Rightarrow> Inr False
                         | _ \<Rightarrow> Inl TypeError),
      os_path_getsize = (\<lambda>s. 10),
      os_path_exists = (\<lambda>s. True),
      json_dumps = (\<lambda>v. Inr ''null''),
      json_loads = (\<lambda>s. Inr (PDict [])),
      cloudpickle_dumps = (\<lambda>v p. case v of
                              PBytes b \<Rightarrow> Inr b
                            | _ \<Rightarrow> Inl (LibraryError ''PicklingError'')),
      pickle_loads = (\<lambda>b. Inr (PBytes b)),
      zlib_compress = (\<lambda>z d. (nat (z_wbits z) # d, z\<lparr>z_consumed := z_consumed z @ d\<rparr>)),
      zlib_flush = (\<lambda>z. []),
      zlib_decompress = (\<lambda>b w. case b of
                            [] \<Rightarrow> Inl (LibraryError ''zlib.error'')
                          | h # d \<Rightarrow> if int h = w then Inr d
                                     else Inl (LibraryError ''zlib.error'')),
      sys_getsizeof = (\<lambda>b. 33 + length b)\<rparr>"

definition example_tracker :: Tracker where
  "example_tracker =
     \<lparr>key = ''secret'', experiment_name = PNone, host = PStr ''http://localhost'',
      rest = Some \<lparr>address = ''http://localhost/'', rest_key = ''secret'',
                   rest_experiment_name = PNone, project_id = PInt 7, model_id = PInt 3\<rparr>,
      tracking = True, auto_log = False,
      experiment_start = ''2019-01-01 10:00:00'', experiment_end = None,
      experiment_file = Some ''train.py'', experiment_id = PStr ''uid-1'',
      web_socket = True, tracker_thread = True\<rparr>"

definition example_tracker_off :: Tracker where
  "example_tracker_off =
     example_tracker\<lparr>tracking := False, web_socket := False, tracker_thread := False\<rparr>"

text \<open>
  The guards an upload call passes before it reaches its request, as the code tests
  them: \<^verbatim>\<open>metric_dict\<close> is falsy or a dict of numbers, an optional argument is falsy
  or of its type, the REST connection exists, tracking is on, and the library calls
  that prepare the payload succeed.
\<close>

definition metrics_ok :: "pyval \<Rightarrow> bool" where
  "metrics_ok md =
     (if truthy md then
        (case md of
           PDict kvs \<Rightarrow> list_all (\<lambda>kv. isinstance_int (snd kv) \<or> isinstance_float (snd kv)) kvs
         | _ \<Rightarrow> False)
      else True)"

definition optional_str :: "pyval \<Rightarrow> bool" where
  "optional_str v = (if truthy v then isinstance_str v else True)"

definition optional_int :: "pyval \<Rightarrow> bool" where
  "optional_int v = (if truthy v then isinstance_int v else True)"

definition is_ok :: "pyerr + 'a \<Rightarrow> bool" where
  "is_ok r = (case r of Inl err \<Rightarrow> False | Inr x \<Rightarrow> True)"

definition custom_object_uploadable :: "env \<Rightarrow> Tracker \<Rightarrow> pyval \<Rightarrow> pyval \<Rightarrow> bool" where
  "custom_object_uploadable e self name obj =
     (isinstance_str name \<and> rest self \<noteq> None \<and> tracking self \<and>
      is_ok (cloudpickle_dumps e obj (- 1)))"

definition image_uploadable ::
  "env \<Rightarrow> Tracker \<Rightarrow> pyval \<Rightarrow> pyval \<Rightarrow> pyval \<Rightarrow> pyval \<Rightarrow> bool" where
  "image_uploadable e self filepath metric_dict custom_file_name epoch =
     (os_path_isfile e filepath = Inr True \<and> metrics_ok metric_dict \<and>
      optional_str custom_file_name \<and> optional_int epoch \<and>
      rest self \<noteq> None \<and> tracking self \<and> is_ok (json_dumps e metric_dict))"

definition plot_uploadable :: "Tracker \<Rightarrow> pyval \<Rightarrow> pyval \<Rightarrow> bool" where
  "plot_uploadable self name plt =
     (isinstance_str name \<and> rest self \<noteq> None \<and> tracking self \<and> plt = PPlot True)"

text \<open>What follows the request in the effects of a call.\<close>

fun after_request :: "effect list \<Rightarrow> effect list" where
  "after_request [] = []"
| "after_request (Request r # effs) = effs"
| "after_request (eff # effs) = after_request effs"

fun responses :: "env \<Rightarrow> effect list \<Rightarrow> response list" where
  "responses e [] = []"
| "responses e (Request r # effs) = respond e r # responses e effs"
| "responses e (eff # effs) = responses e effs"

fun info_logged :: "effect list \<Rightarrow> bool" where
  "info_logged [] = False"
| "info_logged (Log INFO m # effs) = True"
| "info_logged (eff # effs) = info_logged effs"

text \<open>The bootstrap succeeds: the calling script's file is known and the service
  creates the experiment.\<close>

definition bootstrap_succeeds :: "env \<Rightarrow> pyval \<Rightarrow> bool" where
  "bootstrap_succeeds e existing_exp_id =
     (case caller_file e of
        None \<Rightarrow> False
      | Some file \<Rightarrow>
          create_experiment e
            (if truthy existing_exp_id then existing_exp_id else PStr (generate_uid e)) file)"

definition example_uuid :: string where
  "example_uuid = ''123e4567-e89b-42d3-a456-426614174000''"

section \<open>Basic facts about calls and effects\<close>

lemma seq_emit_pair: "seq (emit x) (r, effs) = (r, x # effs)"
  by (simp add: seq_def bind_def emit_def)

lemma snd_seq_emit [simp]: "snd (seq (emit x) k) = x # snd k"
  by (cases k) (simp add: seq_emit_pair)

lemma fst_seq_emit [simp]: "fst (seq (emit x) k) = fst k"
  by (cases k) (simp add: seq_emit_pair)

lemma seq_ret [simp]: "seq (ret u) k = k"
  by (cases k) (simp add: seq_def bind_def ret_def)

lemma bind_ret [simp]: "bind (ret x) f = f x"
  by (cases "f x") (simp add: bind_def ret_def)

lemma bind_raise [simp]: "bind (raise err) f = (Inl err, [])"
  by (simp add: bind_def raise_def)

lemma seq_raise [simp]: "seq (raise err) k = (Inl err, [])"
  by (simp add: seq_def)

lemma bind_lift_Inr [simp]: "bind (lift (Inr x)) f = f x"
  by (cases "f x") (simp add: bind_def lift_def)

lemma bind_lift_Inl [simp]: "bind (lift (Inl err)) f = (Inl err, [])"
  by (simp add: bind_def lift_def)

lemma fst_ret [simp]: "fst (ret x) = Inr x"
  by (simp add: ret_def)

lemma snd_ret [simp]: "snd (ret x) = []"
  by (simp add: ret_def)

lemma fst_raise [simp]: "fst (raise err) = Inl err"
  by (simp add: raise_def)

lemma snd_raise [simp]: "snd (raise err) = []"
  by (simp add: raise_def)

lemma fst_lift [simp]: "fst (lift r) = r"
  by (simp add: lift_def)

lemma snd_lift [simp]: "snd (lift r) = []"
  by (simp add: lift_def)

lemma fst_emit [simp]: "fst (emit x) = Inr ()"
  by (simp add: emit_def)

lemma snd_emit [simp]: "snd (emit x) = [x]"
  by (simp add: emit_def)

lemma snd_bind:
  "snd (bind m f) = (case fst m of Inl err \<Rightarrow> snd m | Inr x \<Rightarrow> snd m @ snd (f x))"
  by (cases m; cases "fst m") (auto simp: bind_def split: prod.splits)

lemma fst_bind:
  "fst (bind m f) = (case fst m of Inl err \<Rightarrow> Inl err | Inr x \<Rightarrow> fst (f x))"
  by (cases m; cases "fst m") (auto simp: bind_def split: prod.splits)

lemma snd_seq:
  "snd (seq m k) = (case fst m of Inl err \<Rightarrow> snd m | Inr x \<Rightarrow> snd m @ snd k)"
  by (simp add: seq_def snd_bind)

lemma fst_seq:
  "fst (seq m k) = (case fst m of Inl err \<Rightarrow> Inl err | Inr x \<Rightarrow> fst k)"
  by (simp add: seq_def fst_bind)

lemma puts_append [simp]: "puts (xs @ ys) = puts xs @ puts ys"
  by (induction xs rule: puts.induct) simp_all

lemma requests_append [simp]: "requests (xs @ ys) = requests xs @ requests ys"
  by (induction xs rule: requests.induct) simp_all

lemma thread_starts_append [simp]:
  "thread_starts (xs @ ys) = thread_starts xs @ thread_starts ys"
  by (induction xs rule: thread_starts.induct) simp_all

lemma thread_stops_append [simp]:
  "thread_stops (xs @ ys) = thread_stops xs @ thread_stops ys"
  by (induction xs rule: thread_stops.induct) simp_all

subsection \<open>The effects of the public operations\<close>

lemma only_ret [simp]: "only P (ret x)"
  by (simp add: only_def)

lemma only_raise [simp]: "only P (raise err)"
  by (simp add: only_def)

lemma only_lift [simp]: "only P (lift r)"
  by (simp add: only_def)

lemma only_emit [simp]: "only P (emit x) = P x"
  by (simp add: only_def)

lemma only_bind: "only P m \<Longrightarrow> (\<And>x. only P (f x)) \<Longrightarrow> only P (bind m f)"
  by (auto simp: only_def snd_bind split: sum.splits)

lemma only_seq: "only P m \<Longrightarrow> only P k \<Longrightarrow> only P (seq m k)"
  by (simp add: seq_def only_bind)

lemma only_if: "(c \<Longrightarrow> only P a) \<Longrightarrow> (\<not> c \<Longrightarrow> only P b) \<Longrightarrow> only P (if c then a else b)"
  by simp

lemmas only_intros = only_bind only_seq only_if

lemma covers_Log [simp]: "covers P self \<Longrightarrow> P (Log l m)"
  by (simp add: covers_def)

lemma covers_tracking: "covers P self \<Longrightarrow> tracking self \<Longrightarrow> call_effect x \<Longrightarrow> P x"
  by (simp add: covers_def)

lemma add_param_returns [simp]: "fst (add_param self n v) = Inr PNone"
  by (simp add: add_param_def)

lemma only_add_param: "covers P self \<Longrightarrow> only P (add_param self n v)"
  unfolding add_param_def by (intro only_intros) (simp_all add: covers_tracking)

lemma only_add_metric: "covers P self \<Longrightarrow> only P (add_metric self n v ep)"
  unfolding add_metric_def by (intro only_intros) (simp_all add: covers_tracking)

lemma only_add_duration_at_epoch:
  "covers P self \<Longrightarrow> only P (add_duration_at_epoch self n v ep)"
  unfolding add_duration_at_epoch_def by (intro only_intros) (simp_all add: covers_tracking)

lemma only_add_dataset_id: "covers P self \<Longrightarrow> only P (add_dataset_id self i)"
  unfolding add_dataset_id_def by (intro only_intros) (simp_all add: covers_tracking)

lemma only_check_metrics: "covers P self \<Longrightarrow> only P (check_metrics e kvs)"
  by (induction kvs) (auto intro!: only_intros)

lemma only_add_image: "covers P self \<Longrightarrow> only P (add_image e self f md cfn ep)"
  unfolding add_image_def Let_def
  by (intro only_intros)
     (auto intro!: only_intros only_check_metrics simp: covers_tracking
           split: pyval.splits option.splits)

lemma only_get_compressed_picke: "only P (get_compressed_picke e obj)"
  unfolding get_compressed_picke_def Let_def
  by (auto intro!: only_intros split: prod.splits)

lemma only_add_custom_object: "covers P self \<Longrightarrow> only P (add_custom_object e self n obj)"
  unfolding add_custom_object_def Let_def
  by (intro only_intros)
     (auto intro!: only_intros only_get_compressed_picke simp: covers_tracking
           split: option.splits)

lemma only_pull_custom_object: "covers P self \<Longrightarrow> only P (pull_custom_object e self i)"
  unfolding pull_custom_object_def Let_def
  by (auto intro!: only_intros simp: covers_tracking split: pyval.splits option.splits)

lemma only_add_custom_plot: "covers P self \<Longrightarrow> only P (add_custom_plot e self n plt)"
  unfolding add_custom_plot_def Let_def
  by (auto intro!: only_intros simp: covers_tracking split: pyval.splits option.splits)

lemma only_pull_params: "covers P self \<Longrightarrow> only P (pull_params e self i)"
  unfolding pull_params_def Let_def
  by (auto intro!: only_intros simp: covers_tracking split: pyval.splits option.splits)

lemma only_add_multiple_params_loop:
  "covers P self \<Longrightarrow> only P (add_multiple_params_loop self d ks)"
  by (induction ks) (auto intro!: only_intros only_add_param)

lemma only_add_multiple_params: "covers P self \<Longrightarrow> only P (add_multiple_params self d)"
  unfolding add_multiple_params_def
  by (auto intro!: only_intros only_add_multiple_params_loop split: pyval.splits)

lemma only_add_model_params: "covers P self \<Longrightarrow> only P (add_model_params e self m mn)"
  unfolding add_model_params_def Let_def
  by (auto intro!: only_intros only_add_multiple_params split: pyval.splits)

lemma only_do_call: "covers P self \<Longrightarrow> only P (do_call e self c)"
  by (cases c)
     (simp_all add: only_add_param only_add_metric only_add_duration_at_epoch
        only_add_dataset_id only_add_image only_add_custom_object only_pull_custom_object
        only_add_custom_plot only_pull_params only_add_multiple_params only_add_model_params)

lemma only_run_steps: "covers P self \<Longrightarrow> list_all P (run_steps e self ss)"
proof (induction ss)
  case Nil
  then show ?case by simp
next
  case (Cons s ss)
  from Cons.prems have c: "\<And>c. list_all P (snd (do_call e self c))"
    using only_do_call by (simp add: only_def)
  show ?case
  proof (cases s)
    case (Call c)
    with Cons c [of c] show ?thesis by (auto split: prod.splits sum.splits)
  next
    case (Try c)
    with Cons c [of c] show ?thesis by simp
  qed
qed

lemma covers_call_effect: "covers call_effect self"
  by (simp add: covers_def)

lemma covers_is_log: "\<not> tracking self \<Longrightarrow> covers is_log self"
  by (simp add: covers_def)

lemma is_log_quiet:
  "list_all is_log effs \<Longrightarrow> puts effs = [] \<and> requests effs = [] \<and> thread_starts effs = []"
  by (induction effs) (auto elim!: is_log.elims(2))

lemma call_effect_no_threads:
  "list_all call_effect effs \<Longrightarrow>
     thread_starts effs = [] \<and> thread_stops effs = [] \<and> count_list effs AtexitRegister = 0"
  by (induction effs) (auto elim!: call_effect.elims(2))

subsection \<open>Construction, the calls and the exit\<close>

lemma initialize_not_started:
  "\<not> (tracking self \<and> (case caller_file e of None \<Rightarrow> False
                           | Some f \<Rightarrow> create_experiment e (experiment_id self) f)) \<Longrightarrow>
     puts (snd (initialize e self)) = [] \<and>
     thread_starts (snd (initialize e self)) = [] \<and>
     thread_stops (snd (initialize e self)) = [] \<and>
     count_list (snd (initialize e self)) AtexitRegister = 0"
  by (cases "caller_file e") (auto simp: initialize_def Let_def)

lemma initialize_ok_effects:
  "caller_file e = Some f \<Longrightarrow> tracking self \<Longrightarrow> create_experiment e (experiment_id self) f \<Longrightarrow>
     thread_starts (snd (initialize e self)) = [WebSocketStart, TrackerThreadStart] \<and>
     thread_stops (snd (initialize e self)) = [] \<and>
     count_list (snd (initialize e self)) AtexitRegister = 1"
  by (simp add: initialize_def Let_def snd_seq)

lemma initialize_ok_tracker:
  "caller_file e = Some f \<Longrightarrow> tracking self \<Longrightarrow> create_experiment e (experiment_id self) f \<Longrightarrow>
     \<exists>t. fst (initialize e self) = Inr t \<and> tracker_thread t \<and>
         experiment_end t = experiment_end self"
  by (simp add: initialize_def Let_def fst_seq)

lemma init_not_started:
  assumes "\<not> (trk \<and> bootstrap_succeeds e x)"
  shows "puts (snd (Tracker_init e k h n trk a x)) = [] \<and>
     thread_starts (snd (Tracker_init e k h n trk a x)) = [] \<and>
     thread_stops (snd (Tracker_init e k h n trk a x)) = [] \<and>
     count_list (snd (Tracker_init e k h n trk a x)) AtexitRegister = 0"
proof -
  define i where "i = (if truthy x then x else PStr (generate_uid e))"
  define S where "S = \<lparr>key = k, experiment_name = n, host = h, rest = None, tracking = trk,
        auto_log = a, experiment_start = time_at_init e, experiment_end = None,
        experiment_file = None, experiment_id = i,
        web_socket = False, tracker_thread = False\<rparr>"
  have S: "experiment_id S = i" "tracking S = trk"
    by (simp_all add: S_def)
  have "\<not> (trk \<and> (case caller_file e of None \<Rightarrow> False
                           | Some f \<Rightarrow> create_experiment e i f))"
    using assms unfolding bootstrap_succeeds_def i_def .
  then have "\<not> (tracking S \<and> (case caller_file e of None \<Rightarrow> False
                           | Some f \<Rightarrow> create_experiment e (experiment_id S) f))"
    unfolding S .
  from initialize_not_started [OF this] show ?thesis
    unfolding Tracker_init_def i_def S_def .
qed

lemma init_ok_effects:
  assumes "bootstrap_succeeds e x"
  shows "thread_starts (snd (Tracker_init e k h n True a x)) = [WebSocketStart, TrackerThreadStart] \<and>
     thread_stops (snd (Tracker_init e k h n True a x)) = [] \<and>
     count_list (snd (Tracker_init e k h n True a x)) AtexitRegister = 1"
proof -
  from assms obtain f where f: "caller_file e = Some f"
      "create_experiment e (if truthy x then x else PStr (generate_uid e)) f"
    by (auto simp: bootstrap_succeeds_def split: option.splits)
  show ?thesis
    unfolding Tracker_init_def
    by (rule initialize_ok_effects [OF f(1)]) (use f(2) in simp_all)
qed

lemma init_ok_tracker:
  assumes "bootstrap_succeeds e x"
  shows "\<exists>t. fst (Tracker_init e k h n True a x) = Inr t \<and> tracker_thread t \<and>
         experiment_end t = None"
proof -
  from assms obtain f where f: "caller_file e = Some f"
      "create_experiment e (if truthy x then x else PStr (generate_uid e)) f"
    by (auto simp: bootstrap_succeeds_def split: option.splits)
  show ?thesis
    unfolding Tracker_init_def
    using initialize_ok_tracker [OF f(1), of "\<lparr>key = k, experiment_name = n, host = h, rest = None, tracking = True,
        auto_log = a, experiment_start = time_at_init e, experiment_end = None,
        experiment_file = None,
        experiment_id = (if truthy x then x
                         else PStr (generate_uid e)),
        web_socket = False, tracker_thread = False\<rparr>"] f(2)
    by simp
qed

lemma run_steps_quiet:
  "thread_starts (run_steps e self ss) = [] \<and> thread_stops (run_steps e self ss) = [] \<and>
   count_list (run_steps e self ss) AtexitRegister = 0"
  using only_run_steps [OF covers_call_effect] call_effect_no_threads by blast

lemma on_end_once:
  "tracker_thread self \<Longrightarrow>
     on_end e self =
       (self\<lparr>experiment_end := Some (time_at_exit e)\<rparr>,
        Inr (),
        [Put \<lparr>ev_type = EXPERIMENT_END, ev_value = PStr (time_at_exit e), ev_epoch = None\<rparr>,
         TrackerThreadStop, WebSocketClose])"
  by (simp add: on_end_def Let_def TrackerThread_stop_def seq_emit_pair ret_def)

lemma run_program_ok:
  assumes "bootstrap_succeeds e x"
  shows "\<exists>t effs. Tracker_init e k h n True a x = (Inr t, effs) \<and> experiment_end t = None \<and>
          thread_starts effs = [WebSocketStart, TrackerThreadStart] \<and> thread_stops effs = [] \<and>
          run_program e k h n True a x steps =
            \<lparr>init_trace = effs, calls_trace = run_steps e t steps,
             exit_trace = [Put \<lparr>ev_type = EXPERIMENT_END, ev_value = PStr (time_at_exit e),
                                ev_epoch = None\<rparr>, TrackerThreadStop, WebSocketClose],
             on_end_runs = 1, tracker_at_exit = Some t,
             tracker_after_exit = Some (t\<lparr>experiment_end := Some (time_at_exit e)\<rparr>)\<rparr>"
proof -
  obtain t where t: "fst (Tracker_init e k h n True a x) = Inr t" "tracker_thread t"
      "experiment_end t = None"
    using init_ok_tracker [OF assms] by blast
  define effs where "effs = snd (Tracker_init e k h n True a x)"
  have init: "Tracker_init e k h n True a x = (Inr t, effs)"
    using t(1) by (simp add: effs_def prod_eq_iff)
  have n: "count_list effs AtexitRegister + count_list (run_steps e t steps) AtexitRegister = Suc 0"
    using init_ok_effects [OF assms, of k h n a] run_steps_quiet [of e t steps]
    by (simp add: effs_def)
  have "run_program e k h n True a x steps =
            \<lparr>init_trace = effs, calls_trace = run_steps e t steps,
             exit_trace = [Put \<lparr>ev_type = EXPERIMENT_END, ev_value = PStr (time_at_exit e),
                                ev_epoch = None\<rparr>, TrackerThreadStop, WebSocketClose],
             on_end_runs = 1, tracker_at_exit = Some t,
             tracker_after_exit = Some (t\<lparr>experiment_end := Some (time_at_exit e)\<rparr>)\<rparr>"
    using t(2) by (simp add: run_program_def init n on_end_once Let_def)
  with init t(3) init_ok_effects [OF assms, of k h n a] show ?thesis
    by (simp add: effs_def)
qed

lemma run_program_not_started:
  assumes "\<not> (trk \<and> bootstrap_succeeds e x)"
  shows "thread_starts (whole_trace (run_program e k h n trk a x steps)) = [] \<and>
         thread_stops (whole_trace (run_program e k h n trk a x steps)) = [] \<and>
         puts (init_trace (run_program e k h n trk a x steps)) = [] \<and>
         on_end_runs (run_program e k h n trk a x steps) = 0"
proof (cases "Tracker_init e k h n trk a x")
  case (Pair r effs)
  have effs: "puts effs = []" "thread_starts effs = []" "thread_stops effs = []"
      "count_list effs AtexitRegister = 0"
    using init_not_started [OF assms, of k h n a] Pair by simp_all
  show ?thesis
  proof (cases r)
    case (Inl err)
    with Pair effs show ?thesis by (simp add: run_program_def whole_trace_def)
  next
    case (Inr t)
    with Pair effs run_steps_quiet [of e t steps] show ?thesis
      by (simp add: run_program_def whole_trace_def Let_def)
  qed
qed

section \<open>Malformed arguments\<close>

text \<open>
  Claim C5. A call of \<^verbatim>\<open>add_param\<close>, \<^verbatim>\<open>add_metric\<close> or \<^verbatim>\<open>add_duration_at_epoch\<close>
  with a malformed argument (a name or tag that is not a string or is empty, a
  metric value or a number of seconds that is not a number, an epoch of
  \<^verbatim>\<open>add_duration_at_epoch\<close> that is missing or not a number) returns None, its only
  effect is one logged warning, and the event queue is as it was.
\<close>

theorem malformed_argument_not_enqueued:
  "(malformed_name n \<longrightarrow>
      (\<exists>msg. add_param self n v = (Inr PNone, [Log WARNING msg])) \<and>
      event_queue_after q (snd (add_param self n v)) = q) \<and>
   (malformed_name n \<or> not_a_number mv \<longrightarrow>
      (\<exists>msg. add_metric self n mv ep = (Inr PNone, [Log WARNING msg])) \<and>
      event_queue_after q (snd (add_metric self n mv ep)) = q) \<and>
   (malformed_name n \<or> not_a_number s \<or> ep' = PNone \<or> not_a_number ep' \<longrightarrow>
      (\<exists>msg. add_duration_at_epoch self n s ep' = (Inr PNone, [Log WARNING msg])) \<and>
      event_queue_after q (snd (add_duration_at_epoch self n s ep')) = q)"
proof (intro conjI impI)
  assume "malformed_name n"
  then show "\<exists>msg. add_param self n v = (Inr PNone, [Log WARNING msg])"
    by (auto simp: malformed_name_def add_param_def seq_emit_pair ret_def split: if_splits)
  then show "event_queue_after q (snd (add_param self n v)) = q"
    by (auto simp: event_queue_after_def)
next
  assume "malformed_name n \<or> not_a_number mv"
  then show "\<exists>msg. add_metric self n mv ep = (Inr PNone, [Log WARNING msg])"
    by (auto simp: malformed_name_def not_a_number_def add_metric_def seq_emit_pair ret_def
             split: if_splits)
  then show "event_queue_after q (snd (add_metric self n mv ep)) = q"
    by (auto simp: event_queue_after_def)
next
  assume "malformed_name n \<or> not_a_number s \<or> ep' = PNone \<or> not_a_number ep'"
  then show "\<exists>msg. add_duration_at_epoch self n s ep' = (Inr PNone, [Log WARNING msg])"
    by (auto simp: malformed_name_def not_a_number_def add_duration_at_epoch_def
                   seq_emit_pair ret_def split: if_splits)
  then show "event_queue_after q (snd (add_duration_at_epoch self n s ep')) = q"
    by (auto simp: event_queue_after_def)
qed

theorem malformed_argument_not_enqueued_witness:
  "malformed_name (PInt 3) \<and> not_a_number (PStr ''high'') \<and>
   event_queue_after [] (snd (add_param example_tracker (PInt 3) (PInt 1))) = [] \<and>
   event_queue_after [] (snd (add_metric example_tracker (PStr '''') (PInt 1) PNone)) = [] \<and>
   event_queue_after []
     (snd (add_duration_at_epoch example_tracker (PStr ''fit'') (PStr ''high'') PNone)) = []"
  using malformed_argument_not_enqueued
          [of "PInt 3" example_tracker "PInt 1" "[]" "PInt 1" PNone "PStr ''high''" PNone]
        malformed_argument_not_enqueued
          [of "PStr ''''" example_tracker "PInt 1" "[]" "PInt 1" PNone "PStr ''high''" PNone]
        malformed_argument_not_enqueued
          [of "PStr ''fit''" example_tracker "PInt 1" "[]" "PInt 1" PNone "PStr ''high''" PNone]
  by (simp add: malformed_name_def not_a_number_def)

section \<open>Tracking disabled\<close>

text \<open>
  Claim C9. On a Tracker whose \<^verbatim>\<open>tracking\<close> is False, every public operation leaves
  the event queue unchanged and issues no request; and the construction of such a
  Tracker puts no event, issues no request (it returns before creating the
  experiment), starts no thread, and yields a Tracker with \<^verbatim>\<open>tracking\<close> False.
\<close>

theorem tracking_disabled_is_inert:
  "(tracking self = False \<longrightarrow>
      puts (snd (do_call e self c)) = [] \<and> requests (snd (do_call e self c)) = [] \<and>
      event_queue_after q (snd (do_call e self c)) = q) \<and>
   puts (snd (Tracker_init e k h n False a x)) = [] \<and>
   requests (snd (Tracker_init e k h n False a x)) = [] \<and>
   thread_starts (snd (Tracker_init e k h n False a x)) = [] \<and>
   (case fst (Tracker_init e k h n False a x) of
      Inl err \<Rightarrow> True
    | Inr t \<Rightarrow> tracking t = False)"
proof (intro conjI impI)
  assume "tracking self = False"
  then have "list_all is_log (snd (do_call e self c))"
    using only_do_call [OF covers_is_log, of self e c] by (simp add: only_def)
  then have *: "puts (snd (do_call e self c)) = [] \<and> requests (snd (do_call e self c)) = []"
    using is_log_quiet by blast
  then show "puts (snd (do_call e self c)) = []" "requests (snd (do_call e self c)) = []"
    by simp_all
  from * show "event_queue_after q (snd (do_call e self c)) = q"
    by (simp add: event_queue_after_def)
next
  show "puts (snd (Tracker_init e k h n False a x)) = []"
    by (simp add: Tracker_init_def initialize_def Let_def split: option.splits)
  show "requests (snd (Tracker_init e k h n False a x)) = []"
    by (simp add: Tracker_init_def initialize_def Let_def split: option.splits)
  show "thread_starts (snd (Tracker_init e k h n False a x)) = []"
    by (simp add: Tracker_init_def initialize_def Let_def split: option.splits)
  show "case fst (Tracker_init e k h n False a x) of
          Inl err \<Rightarrow> True
        | Inr t \<Rightarrow> tracking t = False"
    by (simp add: Tracker_init_def initialize_def Let_def split: option.splits)
qed

theorem tracking_disabled_is_inert_witness:
  "tracking example_tracker_off = False \<and>
   puts (snd (do_call example_env example_tracker_off
                (Add_param (PStr ''lr'') (PInt 1)))) = [] \<and>
   requests (snd (do_call example_env example_tracker_off
                    (Add_custom_object (PStr ''weights'') (PBytes [1, 2, 3])))) = [] \<and>
   requests (snd (do_call example_env example_tracker_off
                    (Pull_params (PStr ''uid-0'')))) = [] \<and>
   requests (snd (Tracker_init example_env ''secret'' (PStr ''http://localhost'') PNone
                    False False PNone)) = []"
  using tracking_disabled_is_inert
          [of example_tracker_off example_env "Add_param (PStr ''lr'') (PInt 1)" "[]"
              "''secret''" "PStr ''http://localhost''" PNone False PNone]
        tracking_disabled_is_inert
          [of example_tracker_off example_env
              "Add_custom_object (PStr ''weights'') (PBytes [1, 2, 3])" "[]"
              "''secret''" "PStr ''http://localhost''" PNone False PNone]
        tracking_disabled_is_inert
          [of example_tracker_off example_env "Pull_params (PStr ''uid-0'')" "[]"
              "''secret''" "PStr ''http://localhost''" PNone False PNone]
  by (simp add: example_tracker_off_def)

section \<open>Exceptions that reach the caller\<close>

text \<open>
  Claim C2 says that no public operation raises into the instrumented program. The
  code does raise. \<^verbatim>\<open>pull_params\<close> concatenates its argument to the URL before it
  tests that the argument is a string, so a non-string argument raises TypeError
  and the warning that was meant for it is never logged. \<^verbatim>\<open>add_image\<close> deletes
  from \<^verbatim>\<open>metric_dict\<close> while iterating over it, so a metric that is not a number
  raises RuntimeError after its warning.
\<close>

theorem public_operations_raise:
  "pull_params e self (PInt 5) = (Inl TypeError, []) \<and>
   fst (add_image (e\<lparr>os_path_isfile := (\<lambda>v. Inr True)\<rparr>) self (PStr ''img.png'')
          (PDict [(PStr ''acc'', PStr ''high'')]) PNone PNone) = Inl RuntimeError"
  by (simp add: pull_params_def str_add_def add_image_def fst_seq)

theorem public_operations_raise_witness:
  "pull_params example_env example_tracker (PInt 5) = (Inl TypeError, []) \<and>
   fst (add_image (example_env\<lparr>os_path_isfile := (\<lambda>v. Inr True)\<rparr>) example_tracker
          (PStr ''img.png'') (PDict [(PStr ''acc'', PStr ''high'')]) PNone PNone)
     = Inl RuntimeError"
  using public_operations_raise [of example_env example_tracker] by simp

section \<open>Pull-back and the status of the response\<close>

text \<open>
  Claim C3 says that a pull-back answered with status 400 or 403 returns None.
  \<^verbatim>\<open>pull_params\<close> does. \<^verbatim>\<open>pull_custom_object\<close> does not: on 400 it logs and goes
  on, and it never looks at 403, so whatever the status, the outcome is the decoding
  of the response body (the decoded payload, or the decoder's exception).
\<close>

theorem pull_custom_object_ignores_status:
  "fst (pull_custom_object
          (e\<lparr>is_uuid4_pattern := (\<lambda>s. True),
             respond := (\<lambda>r. \<lparr>status_code = st, content = c, resp_text = t\<rparr>)\<rparr>)
          (self\<lparr>tracking := True, rest := Some r\<rparr>) (PStr s))
     = (case zlib_decompress e c 31 of Inl err \<Rightarrow> Inl err | Inr b \<Rightarrow> pickle_loads e b)"
  by (simp add: pull_custom_object_def Let_def fst_bind fst_seq split: sum.splits)

theorem pull_custom_object_ignores_status_witness:
  "fst (pull_custom_object
          (example_env\<lparr>is_uuid4_pattern := (\<lambda>s. True),
                       respond := (\<lambda>r. \<lparr>status_code = 400, content = [31, 1, 2, 3],
                                         resp_text = ''not found''\<rparr>)\<rparr>)
          (example_tracker\<lparr>tracking := True, rest := rest example_tracker\<rparr>)
          (PStr example_uuid)) = Inr (PBytes [1, 2, 3]) \<and>
   fst (pull_custom_object
          (example_env\<lparr>is_uuid4_pattern := (\<lambda>s. True),
                       respond := (\<lambda>r. \<lparr>status_code = 403, content = [],
                                         resp_text = ''forbidden''\<rparr>)\<rparr>)
          (example_tracker\<lparr>tracking := True, rest := rest example_tracker\<rparr>)
          (PStr example_uuid)) = Inl (LibraryError ''zlib.error'')"
proof -
  have r: "rest example_tracker
             = Some \<lparr>address = ''http://localhost/'', rest_key = ''secret'',
                     rest_experiment_name = PNone, project_id = PInt 7, model_id = PInt 3\<rparr>"
    by (simp add: example_tracker_def)
  show ?thesis
    using pull_custom_object_ignores_status
            [where e = example_env and st = 400 and c = "[31, 1, 2, 3]"
               and t = "''not found''" and self = example_tracker and s = example_uuid
               and r = "\<lparr>address = ''http://localhost/'', rest_key = ''secret'',
                         rest_experiment_name = PNone, project_id = PInt 7,
                         model_id = PInt 3\<rparr>"]
          pull_custom_object_ignores_status
            [where e = example_env and st = 403 and c = "[]"
               and t = "''forbidden''" and self = example_tracker and s = example_uuid
               and r = "\<lparr>address = ''http://localhost/'', rest_key = ''secret'',
                         rest_experiment_name = PNone, project_id = PInt 7,
                         model_id = PInt 3\<rparr>"]
    by (simp add: r example_env_def)
qed

section \<open>The exit callback\<close>

text \<open>
  Claim C4. When the Tracker is tracking and the bootstrap succeeds (so that
  \<^verbatim>\<open>_initialize\<close> registers \<^verbatim>\<open>_on_end\<close>), then whatever calls the program makes and
  however it ends, the callback runs exactly once at exit; it puts the
  EXPERIMENT_END event, carrying the end time, and only then stops the dispatcher;
  and the end time, still unset when the exit begins, is set by that one run.
\<close>

theorem exit_callback_runs_once:
  assumes "bootstrap_succeeds e x"
  shows "on_end_runs (run_program e k h n True a x steps) = 1 \<and>
         exit_trace (run_program e k h n True a x steps) =
           [Put \<lparr>ev_type = EXPERIMENT_END, ev_value = PStr (time_at_exit e), ev_epoch = None\<rparr>,
            TrackerThreadStop, WebSocketClose] \<and>
         map_option experiment_end (tracker_at_exit (run_program e k h n True a x steps))
           = Some None \<and>
         map_option experiment_end (tracker_after_exit (run_program e k h n True a x steps))
           = Some (Some (time_at_exit e))"
  using run_program_ok [OF assms, of k h n a steps] by auto

theorem exit_callback_runs_once_witness:
  "bootstrap_succeeds example_env PNone \<and>
   on_end_runs
     (run_program example_env ''secret'' (PStr ''http://localhost'') PNone True False PNone
        [Call (Add_param (PStr ''lr'') (PInt 1)), Try (Pull_params (PInt 5)),
         Call (Add_dataset_id (PInt 2)), Call (Pull_params (PInt 5)),
         Call (Add_param (PStr ''never'') (PInt 0))]) = 1 \<and>
   exit_trace
     (run_program example_env ''secret'' (PStr ''http://localhost'') PNone True False PNone
        [Call (Add_param (PStr ''lr'') (PInt 1)), Try (Pull_params (PInt 5)),
         Call (Add_dataset_id (PInt 2)), Call (Pull_params (PInt 5)),
         Call (Add_param (PStr ''never'') (PInt 0))]) =
     [Put \<lparr>ev_type = EXPERIMENT_END, ev_value = PStr ''2019-01-01 11:00:00'',
           ev_epoch = None\<rparr>,
      TrackerThreadStop, WebSocketClose]"
proof -
  have b: "bootstrap_succeeds example_env PNone"
    by (simp add: bootstrap_succeeds_def example_env_def)
  have t: "time_at_exit example_env = ''2019-01-01 11:00:00''"
    by (simp add: example_env_def)
  show ?thesis
    using exit_callback_runs_once
            [OF b, of "''secret''" "PStr ''http://localhost''" PNone False
               "[Call (Add_param (PStr ''lr'') (PInt 1)), Try (Pull_params (PInt 5)),
                Call (Add_dataset_id (PInt 2)), Call (Pull_params (PInt 5)),
                Call (Add_param (PStr ''never'') (PInt 0))]"]
          b
    by (simp add: t)
qed

section \<open>Starting and stopping the threads\<close>

text \<open>
  Claim C6. When tracking is enabled and the bootstrap succeeds, the streaming
  transport thread and the dispatcher thread are each started exactly once, during
  construction, and each is stopped exactly once, at exit. Otherwise (tracking
  disabled, or the bootstrap fails) no thread is ever started or stopped and the
  construction puts no event on the queue.
\<close>

theorem threads_started_and_stopped_once:
  "(trk \<and> bootstrap_succeeds e x \<longrightarrow>
      thread_starts (init_trace (run_program e k h n trk a x steps))
        = [WebSocketStart, TrackerThreadStart] \<and>
      thread_starts (whole_trace (run_program e k h n trk a x steps))
        = [WebSocketStart, TrackerThreadStart] \<and>
      thread_stops (exit_trace (run_program e k h n trk a x steps))
        = [TrackerThreadStop, WebSocketClose] \<and>
      thread_stops (whole_trace (run_program e k h n trk a x steps))
        = [TrackerThreadStop, WebSocketClose]) \<and>
   (\<not> (trk \<and> bootstrap_succeeds e x) \<longrightarrow>
      thread_starts (whole_trace (run_program e k h n trk a x steps)) = [] \<and>
      thread_stops (whole_trace (run_program e k h n trk a x steps)) = [] \<and>
      puts (init_trace (run_program e k h n trk a x steps)) = [])"
proof (intro conjI impI)
  assume ok: "trk \<and> bootstrap_succeeds e x"
  then have trk: "trk = True" by simp
  from ok obtain t effs where
    r: "thread_starts effs = [WebSocketStart, TrackerThreadStart]" "thread_stops effs = []"
       "run_program e k h n True a x steps =
            \<lparr>init_trace = effs, calls_trace = run_steps e t steps,
             exit_trace = [Put \<lparr>ev_type = EXPERIMENT_END, ev_value = PStr (time_at_exit e),
                                ev_epoch = None\<rparr>, TrackerThreadStop, WebSocketClose],
             on_end_runs = 1, tracker_at_exit = Some t,
             tracker_after_exit = Some (t\<lparr>experiment_end := Some (time_at_exit e)\<rparr>)\<rparr>"
    using run_program_ok [of e x k h n a steps] by blast
  show "thread_starts (init_trace (run_program e k h n trk a x steps))
        = [WebSocketStart, TrackerThreadStart]"
    using r by (simp add: trk)
  show "thread_starts (whole_trace (run_program e k h n trk a x steps))
        = [WebSocketStart, TrackerThreadStart]"
    using r run_steps_quiet [of e t steps] by (simp add: trk whole_trace_def)
  show "thread_stops (exit_trace (run_program e k h n trk a x steps))
        = [TrackerThreadStop, WebSocketClose]"
    using r by (simp add: trk)
  show "thread_stops (whole_trace (run_program e k h n trk a x steps))
        = [TrackerThreadStop, WebSocketClose]"
    using r run_steps_quiet [of e t steps] by (simp add: trk whole_trace_def)
next
  assume no: "\<not> (trk \<and> bootstrap_succeeds e x)"
  show "thread_starts (whole_trace (run_program e k h n trk a x steps)) = []"
       "thread_stops (whole_trace (run_program e k h n trk a x steps)) = []"
       "puts (init_trace (run_program e k h n trk a x steps)) = []"
    using run_program_not_started [OF no, of k h n a steps] by simp_all
qed

theorem threads_started_and_stopped_once_witness:
  "bootstrap_succeeds example_env PNone \<and>
   thread_starts (whole_trace
     (run_program example_env ''secret'' (PStr ''http://localhost'') PNone True False PNone
        [Call (Add_param (PStr ''lr'') (PInt 1)), Try (Pull_params (PInt 5)),
         Call (Add_dataset_id (PInt 2)), Call (Pull_params (PInt 5)),
         Call (Add_param (PStr ''never'') (PInt 0))])) = [WebSocketStart, TrackerThreadStart] \<and>
   thread_stops (whole_trace
     (run_program example_env ''secret'' (PStr ''http://localhost'') PNone True False PNone
        [Call (Add_param (PStr ''lr'') (PInt 1)), Try (Pull_params (PInt 5)),
         Call (Add_dataset_id (PInt 2)), Call (Pull_params (PInt 5)),
         Call (Add_param (PStr ''never'') (PInt 0))])) = [TrackerThreadStop, WebSocketClose] \<and>
   \<not> bootstrap_succeeds (example_env\<lparr>create_experiment := (\<lambda>i f. False)\<rparr>) PNone \<and>
   thread_starts (whole_trace
     (run_program (example_env\<lparr>create_experiment := (\<lambda>i f. False)\<rparr>) ''secret''
        (PStr ''http://localhost'') PNone True False PNone
        [Call (Add_param (PStr ''lr'') (PInt 1))])) = [] \<and>
   puts (init_trace
     (run_program (example_env\<lparr>create_experiment := (\<lambda>i f. False)\<rparr>) ''secret''
        (PStr ''http://localhost'') PNone True False PNone
        [Call (Add_param (PStr ''lr'') (PInt 1))])) = []"
proof -
  have b: "bootstrap_succeeds example_env PNone"
    by (simp add: bootstrap_succeeds_def example_env_def)
  have nb: "\<not> bootstrap_succeeds (example_env\<lparr>create_experiment := (\<lambda>i f. False)\<rparr>) PNone"
    by (simp add: bootstrap_succeeds_def example_env_def)
  show ?thesis
    using threads_started_and_stopped_once
            [of True example_env PNone "''secret''" "PStr ''http://localhost''" PNone False
               "[Call (Add_param (PStr ''lr'') (PInt 1)), Try (Pull_params (PInt 5)),
                Call (Add_dataset_id (PInt 2)), Call (Pull_params (PInt 5)),
                Call (Add_param (PStr ''never'') (PInt 0))]"]
          threads_started_and_stopped_once
            [of True "example_env\<lparr>create_experiment := (\<lambda>i f. False)\<rparr>" PNone "''secret''"
               "PStr ''http://localhost''" PNone False
               "[Call (Add_param (PStr ''lr'') (PInt 1))]"]
          b nb
    by simp
qed

section \<open>Bulk uploads\<close>

lemma requests_check_metrics [simp]: "requests (snd (check_metrics e kvs)) = []"
  by (induction kvs) auto

lemma requests_metrics_case [simp]:
  "requests (snd (case md of PDict kvs \<Rightarrow> (if truthy md then check_metrics e kvs else ret ())
                  | _ \<Rightarrow> ret ())) = []"
  by (cases md) simp_all

lemma add_custom_object_requests:
  "length (requests (snd (add_custom_object e self name obj))) \<le> 1"
  by (simp add: add_custom_object_def get_compressed_picke_def Let_def snd_bind
           split: option.splits sum.splits prod.splits)

lemma add_image_requests:
  "length (requests (snd (add_image e self f md cfn ep))) \<le> 1"
  by (simp add: add_image_def Let_def snd_bind snd_seq
           split: option.splits sum.splits)

lemma add_custom_plot_requests:
  "length (requests (snd (add_custom_plot e self name plt))) \<le> 1"
  by (simp add: add_custom_plot_def Let_def snd_bind snd_seq
           split: option.splits sum.splits pyval.splits)


lemma check_metrics_ok:
  "list_all (\<lambda>kv. isinstance_int (snd kv) \<or> isinstance_float (snd kv)) kvs \<Longrightarrow>
     check_metrics e kvs = ret ()"
  by (induction kvs) auto

lemma metrics_case_ok:
  "metrics_ok md \<Longrightarrow>
     (case md of PDict kvs \<Rightarrow> (if truthy md then check_metrics e kvs else ret ())
      | _ \<Rightarrow> ret ()) = ret ()"
  by (cases md) (auto simp: metrics_ok_def check_metrics_ok split: if_splits)

lemma add_custom_object_uploads:
  assumes "custom_object_uploadable e self name obj"
  shows "(\<exists>resp. responses e (snd (add_custom_object e self name obj)) = [resp] \<and>
            (status_code resp \<noteq> 201 \<longrightarrow>
               info_logged (after_request (snd (add_custom_object e self name obj))))) \<and>
         length (requests (snd (add_custom_object e self name obj))) = 1 \<and>
         fst (add_custom_object e self name obj) = Inr PNone"
proof -
  from assms obtain r p where "rest self = Some r" "cloudpickle_dumps e obj (- 1) = Inr p"
    "isinstance_str name" "tracking self"
    by (auto simp: custom_object_uploadable_def is_ok_def split: sum.splits)
  then show ?thesis
    by (simp add: add_custom_object_def get_compressed_picke_def Let_def split: prod.splits)
qed

lemma add_image_uploads:
  assumes "image_uploadable e self f md cfn ep"
  shows "(\<exists>resp. responses e (snd (add_image e self f md cfn ep)) = [resp] \<and>
            (status_code resp \<noteq> 201 \<longrightarrow>
               info_logged (after_request (snd (add_image e self f md cfn ep))))) \<and>
         length (requests (snd (add_image e self f md cfn ep))) = 1 \<and>
         fst (add_image e self f md cfn ep) = Inr PNone"
proof -
  from assms obtain r js where "rest self = Some r" "json_dumps e md = Inr js"
    "os_path_isfile e f = Inr True" "metrics_ok md" "tracking self"
    "truthy cfn \<Longrightarrow> isinstance_str cfn" "truthy ep \<Longrightarrow> isinstance_int ep"
    "truthy md \<Longrightarrow> isinstance_dict md"
    by (cases md) (auto simp: image_uploadable_def is_ok_def optional_str_def optional_int_def
          metrics_ok_def split: sum.splits if_splits)
  then show ?thesis
    by (auto simp: add_image_def Let_def metrics_case_ok)
qed

lemma add_custom_plot_uploads:
  assumes "plot_uploadable self name plt"
  shows "(\<exists>resp. responses e (snd (add_custom_plot e self name plt)) = [resp] \<and>
            (status_code resp \<noteq> 201 \<longrightarrow>
               info_logged (after_request (snd (add_custom_plot e self name plt))))) \<and>
         length (requests (snd (add_custom_plot e self name plt))) = 1 \<and>
         fst (add_custom_plot e self name plt) = Inr PNone"
proof -
  from assms obtain r n where "rest self = Some r" "name = PStr n" "plt = PPlot True"
    "tracking self"
    by (cases name) (auto simp: plot_uploadable_def)
  then show ?thesis
    by (auto simp: add_custom_plot_def Let_def snd_seq fst_seq)
qed

text \<open>
  Claim C7 says that every call of a bulk upload operation issues exactly one
  request. The operations are guarded: a call that fails a guard (here: tracking is
  off) returns without any request.
\<close>

theorem upload_not_one_request_counterexample:
  "length (requests (snd (add_custom_object example_env example_tracker_off
                            (PStr ''weights'') (PBytes [1, 2, 3])))) \<noteq> 1"
  by (simp add: add_custom_object_def example_tracker_off_def example_tracker_def)

text \<open>
  Claim C7, amended. A call of \<^verbatim>\<open>add_custom_object\<close>, \<^verbatim>\<open>add_image\<close> or
  \<^verbatim>\<open>add_custom_plot\<close> issues at most one request (nothing is retried). A call that
  passes the operation's guards issues exactly one and returns None whatever the
  status of the response; when that status is not 201, an info message is logged
  after the request.
\<close>

theorem upload_issues_at_most_one_request:
  "length (requests (snd (add_custom_object e self name obj))) \<le> 1 \<and>
   length (requests (snd (add_image e self f md cfn ep))) \<le> 1 \<and>
   length (requests (snd (add_custom_plot e self pname plt))) \<le> 1 \<and>
   (custom_object_uploadable e self name obj \<longrightarrow>
      (\<exists>resp. responses e (snd (add_custom_object e self name obj)) = [resp] \<and>
         (status_code resp \<noteq> 201 \<longrightarrow>
            info_logged (after_request (snd (add_custom_object e self name obj))))) \<and>
      length (requests (snd (add_custom_object e self name obj))) = 1 \<and>
      fst (add_custom_object e self name obj) = Inr PNone) \<and>
   (image_uploadable e self f md cfn ep \<longrightarrow>
      (\<exists>resp. responses e (snd (add_image e self f md cfn ep)) = [resp] \<and>
         (status_code resp \<noteq> 201 \<longrightarrow>
            info_logged (after_request (snd (add_image e self f md cfn ep))))) \<and>
      length (requests (snd (add_image e self f md cfn ep))) = 1 \<and>
      fst (add_image e self f md cfn ep) = Inr PNone) \<and>
   (plot_uploadable self pname plt \<longrightarrow>
      (\<exists>resp. responses e (snd (add_custom_plot e self pname plt)) = [resp] \<and>
         (status_code resp \<noteq> 201 \<longrightarrow>
            info_logged (after_request (snd (add_custom_plot e self pname plt))))) \<and>
      length (requests (snd (add_custom_plot e self pname plt))) = 1 \<and>
      fst (add_custom_plot e self pname plt) = Inr PNone)"
  using add_custom_object_requests [of e self name obj]
        add_image_requests [of e self f md cfn ep]
        add_custom_plot_requests [of e self pname plt]
        add_custom_object_uploads [of e self name obj]
        add_image_uploads [of e self f md cfn ep]
        add_custom_plot_uploads [of self pname plt e]
  by blast

theorem upload_issues_at_most_one_request_witness:
  "custom_object_uploadable (example_env\<lparr>respond := (\<lambda>r. \<lparr>status_code = 500, content = [],
                                                    resp_text = []\<rparr>)\<rparr>) example_tracker (PStr ''weights'') (PBytes [1, 2, 3]) \<and>
   length (requests (snd (add_custom_object (example_env\<lparr>respond := (\<lambda>r. \<lparr>status_code = 500, content = [],
                                                    resp_text = []\<rparr>)\<rparr>) example_tracker
                            (PStr ''weights'') (PBytes [1, 2, 3])))) = 1 \<and>
   info_logged (after_request (snd (add_custom_object (example_env\<lparr>respond := (\<lambda>r. \<lparr>status_code = 500, content = [],
                                                    resp_text = []\<rparr>)\<rparr>) example_tracker
                                      (PStr ''weights'') (PBytes [1, 2, 3])))) \<and>
   image_uploadable (example_env\<lparr>respond := (\<lambda>r. \<lparr>status_code = 500, content = [],
                                                    resp_text = []\<rparr>)\<rparr>) example_tracker (PStr ''img.png'') PNone PNone PNone \<and>
   length (requests (snd (add_image (example_env\<lparr>respond := (\<lambda>r. \<lparr>status_code = 500, content = [],
                                                    resp_text = []\<rparr>)\<rparr>) example_tracker
                            (PStr ''img.png'') PNone PNone PNone))) = 1 \<and>
   plot_uploadable example_tracker (PStr ''loss'') (PPlot True) \<and>
   length (requests (snd (add_custom_plot (example_env\<lparr>respond := (\<lambda>r. \<lparr>status_code = 500, content = [],
                                                    resp_text = []\<rparr>)\<rparr>) example_tracker
                            (PStr ''loss'') (PPlot True)))) = 1"
proof -
  define e where "e = (example_env\<lparr>respond := (\<lambda>r. \<lparr>status_code = 500, content = [],
                                                    resp_text = []\<rparr>)\<rparr>)"
  have u1: "custom_object_uploadable e example_tracker (PStr ''weights'') (PBytes [1, 2, 3])"
    by (simp add: custom_object_uploadable_def is_ok_def example_tracker_def example_env_def
                  e_def)
  have u2: "image_uploadable e example_tracker (PStr ''img.png'') PNone PNone PNone"
    by (simp add: image_uploadable_def metrics_ok_def optional_str_def optional_int_def
                  is_ok_def example_tracker_def example_env_def e_def)
  have u3: "plot_uploadable example_tracker (PStr ''loss'') (PPlot True)"
    by (simp add: plot_uploadable_def example_tracker_def)
  have st: "\<And>r. status_code (respond e r) \<noteq> 201"
    by (simp add: e_def)
  have resp: "\<And>effs resp. responses e effs = [resp] \<Longrightarrow> status_code resp \<noteq> 201"
  proof -
    fix effs resp
    show "responses e effs = [resp] \<Longrightarrow> status_code resp \<noteq> 201"
    proof (induction effs)
      case Nil
      then show ?case by simp
    next
      case (Cons x effs)
      then show ?case using st by (cases x) auto
    qed
  qed
  show ?thesis
    unfolding e_def [symmetric]
    using upload_issues_at_most_one_request
            [of e example_tracker "PStr ''weights''" "PBytes [1, 2, 3]"
                "PStr ''img.png''" PNone PNone PNone "PStr ''loss''" "PPlot True"]
          u1 u2 u3 resp
    by blast
qed

section \<open>Parameters extracted from a model\<close>

lemma dict_get_distinct:
  "distinct (map fst d) \<Longrightarrow> (k, v) \<in> set d \<Longrightarrow> dict_get d k = Inr v"
  by (induction d) (auto simp: rev_image_eqI)

lemma dict_set_fresh: "k \<notin> fst ` set d \<Longrightarrow> dict_set d k v = d @ [(k, v)]"
  by (induction d) auto

lemma loop_distinct:
  "\<forall>(k, v) \<in> set d'. dict_get d k = Inr v \<Longrightarrow>
     add_multiple_params_loop self d (map fst d') =
       (Inr (), concat (map (\<lambda>(k, v). snd (add_param self k v)) d'))"
proof (induction d')
  case Nil
  then show ?case by (simp add: ret_def)
next
  case (Cons kv d')
  obtain k v where kv: "kv = (k, v)" by (cases kv)
  from Cons.prems have g: "dict_get d k = Inr v" by (simp add: kv)
  from Cons have IH: "add_multiple_params_loop self d (map fst d') =
       (Inr (), concat (map (\<lambda>(k, v). snd (add_param self k v)) d'))"
    by simp
  show ?case
    by (simp add: kv g IH prod_eq_iff fst_bind snd_bind)
qed

lemma add_multiple_params_distinct:
  assumes "distinct (map fst d)"
  shows "snd (add_multiple_params self (PDict d)) =
           (if tracking self then concat (map (\<lambda>(k, v). snd (add_param self k v)) d) else [])"
proof -
  have "\<forall>(k, v) \<in> set d. dict_get d k = Inr v"
    using assms dict_get_distinct by fastforce
  from loop_distinct [OF this] show ?thesis
    by (simp add: add_multiple_params_def snd_seq)
qed

lemma prefix_loop_distinct:
  assumes "\<forall>(k, v) \<in> set ps'. dict_get params (PStr k) = Inr v"
      and "distinct (map fst ps')"
      and "\<forall>k \<in> fst ` set ps'. PStr (n @ ''__'' @ k) \<notin> fst ` set acc"
  shows "prefix_loop e (PStr n) params (map fst (get_params ps')) acc =
           Inr (acc @ map (\<lambda>(k, v). (PStr (n @ ''__'' @ k), v)) ps')"
  using assms
proof (induction ps' arbitrary: acc)
  case Nil
  then show ?case by (simp add: get_params_def)
next
  case (Cons kv ps')
  obtain k v where kv: "kv = (k, v)" by (cases kv)
  from Cons.prems have g: "dict_get params (PStr k) = Inr v" by (simp add: kv)
  have fresh: "PStr (n @ ''__'' @ k) \<notin> fst ` set acc"
    using Cons.prems(3) by (simp add: kv)
  have "prefix_loop e (PStr n) params (map fst (get_params ps'))
          (acc @ [(PStr (n @ ''__'' @ k), v)]) =
        Inr ((acc @ [(PStr (n @ ''__'' @ k), v)]) @
             map (\<lambda>(k, v). (PStr (n @ ''__'' @ k), v)) ps')"
  proof (rule Cons.IH)
    show "\<forall>(k, v) \<in> set ps'. dict_get params (PStr k) = Inr v"
      using Cons.prems(1) by simp
    show "distinct (map fst ps')" using Cons.prems(2) by simp
    show "\<forall>k' \<in> fst ` set ps'. PStr (n @ ''__'' @ k') \<notin> fst ` set (acc @ [(PStr (n @ ''__'' @ k), v)])"
      using Cons.prems(2,3) by (auto simp: kv)
  qed
  then show ?case
    using g fresh by (simp add: kv get_params_def fmt_s_def dict_set_fresh)
qed

lemma get_params_lookup:
  "distinct (map fst ps) \<Longrightarrow> \<forall>(k, v) \<in> set ps. dict_get (get_params ps) (PStr k) = Inr v"
proof -
  assume d: "distinct (map fst ps)"
  have "distinct (map fst (get_params ps))"
    using d by (simp add: get_params_def comp_def case_prod_unfold distinct_map inj_on_def)
  moreover have "\<And>k v. (k, v) \<in> set ps \<Longrightarrow> (PStr k, v) \<in> set (get_params ps)"
    by (force simp: get_params_def)
  ultimately show ?thesis
    using dict_get_distinct by fastforce
qed

lemma concat_map_puts: "puts (concat (map f xs)) = concat (map (\<lambda>x. puts (f x)) xs)"
  by (induction xs) simp_all

lemma add_param_puts_MODEL_PARAM:
  "list_all (\<lambda>ev. ev_type ev = MODEL_PARAM) (puts (snd (add_param self n v)))"
  by (simp add: add_param_def)

lemma add_param_not_tracking: "\<not> tracking self \<Longrightarrow> puts (snd (add_param self n v)) = []"
  by (simp add: add_param_def)

lemma spec_add_model_params_MODEL_PARAM:
  "list_all (\<lambda>ev. ev_type ev = MODEL_PARAM) (spec_add_model_params self ps model_name)"
  unfolding spec_add_model_params_def
  by (induction ps) (auto simp: add_param_puts_MODEL_PARAM)

lemma spec_add_model_params_not_tracking:
  "\<not> tracking self \<Longrightarrow> spec_add_model_params self ps model_name = []"
  unfolding spec_add_model_params_def
  by (induction ps) (auto simp: add_param_not_tracking)

lemma add_model_params_puts:
  assumes "distinct (map fst ps)"
      and "sklearn_available e"
      and "model_name = PNone \<or> isinstance_str model_name"
  shows "puts (snd (add_model_params e self (PEstimator ps) model_name))
           = spec_add_model_params self ps model_name"
proof (cases "tracking self")
  case False
  with assms show ?thesis
    by (auto simp: add_model_params_def spec_add_model_params_not_tracking)
next
  case True
  show ?thesis
  proof (cases "truthy model_name")
    case False
    have key: "\<And>k. spec_key model_name k = k"
      using False assms(3) by (cases model_name) (auto simp: spec_key_def)
    have "distinct (map fst (get_params ps))"
      using assms(1)
      by (simp add: get_params_def comp_def case_prod_unfold distinct_map inj_on_def)
    from add_multiple_params_distinct [OF this, of self] True False assms(2,3)
    show ?thesis
      by (auto simp: add_model_params_def Let_def spec_add_model_params_def key
                     concat_map_puts get_params_def comp_def case_prod_unfold)
  next
    case t: True
    with assms(3) obtain n where n: "model_name = PStr n" "n \<noteq> []"
      by (cases model_name) auto
    let ?result = "map (\<lambda>(k, v). (PStr (n @ ''__'' @ k), v)) ps"
    have loop: "prefix_loop e (PStr n) (get_params ps) (map fst (get_params ps)) [] =
                  Inr ([] @ ?result)"
      by (rule prefix_loop_distinct) (use assms(1) get_params_lookup in auto)
    have "distinct (map fst ?result)"
      using assms(1) by (simp add: comp_def case_prod_unfold distinct_map inj_on_def)
    from add_multiple_params_distinct [OF this, of self] True loop assms(2)
    show ?thesis
      by (simp add: add_model_params_def Let_def spec_add_model_params_def n spec_key_def
                    concat_map_puts comp_def case_prod_unfold)
  qed
qed

text \<open>
  Claim C8. For a supported model object (an sklearn estimator, whose
  \<^verbatim>\<open>get_params()\<close> is a dict keyed by distinct parameter names) and a model name that
  is None or a string, \<^verbatim>\<open>add_model_params\<close> enqueues exactly the events that
  \<^verbatim>\<open>add_param(k', v)\<close> would enqueue for each extracted parameter in turn, where
  \<open>k'\<close> is \<^verbatim>\<open>model_name__k\<close> when a (non-empty) model name is given and \<open>k\<close>
  otherwise; all of them are MODEL_PARAM events.
\<close>

theorem add_model_params_as_add_param:
  assumes "distinct (map fst ps)"
      and "sklearn_available e"
      and "model_name = PNone \<or> isinstance_str model_name"
  shows "puts (snd (add_model_params e self (PEstimator ps) model_name))
           = spec_add_model_params self ps model_name \<and>
         list_all (\<lambda>ev. ev_type ev = MODEL_PARAM)
           (puts (snd (add_model_params e self (PEstimator ps) model_name)))"
  using add_model_params_puts [OF assms] spec_add_model_params_MODEL_PARAM by simp

theorem add_model_params_as_add_param_witness:
  "distinct (map fst [(''C'', PInt 1), (''kernel'', PStr ''rbf'')]) \<and>
   sklearn_available example_env \<and>
   puts (snd (add_model_params example_env example_tracker
                (PEstimator [(''C'', PInt 1), (''kernel'', PStr ''rbf'')]) (PStr ''svm'')))
     = [\<lparr>ev_type = MODEL_PARAM, ev_value = PDict [(PStr ''svm__C'', PInt 1)],
         ev_epoch = None\<rparr>,
        \<lparr>ev_type = MODEL_PARAM, ev_value = PDict [(PStr ''svm__kernel'', PStr ''rbf'')],
         ev_epoch = None\<rparr>] \<and>
   puts (snd (add_model_params example_env example_tracker
                (PEstimator [(''C'', PInt 1), (''kernel'', PStr ''rbf'')]) PNone))
     = [\<lparr>ev_type = MODEL_PARAM, ev_value = PDict [(PStr ''C'', PInt 1)], ev_epoch = None\<rparr>,
        \<lparr>ev_type = MODEL_PARAM, ev_value = PDict [(PStr ''kernel'', PStr ''rbf'')],
         ev_epoch = None\<rparr>]"
proof -
  have d: "distinct (map fst [(''C'', PInt 1), (''kernel'', PStr ''rbf'')])"
    by simp
  have a: "sklearn_available example_env"
    by (simp add: example_env_def)
  have t: "tracking example_tracker"
    by (simp add: example_tracker_def)
  show ?thesis
    using add_model_params_as_add_param [OF d a, of "PStr ''svm''" example_tracker]
          add_model_params_as_add_param [OF d a, of PNone example_tracker]
          a t
    by (simp add: spec_add_model_params_def spec_key_def add_param_def)
qed

section \<open>The custom object round trip\<close>

text \<open>
  Claim C10. For a picklable object, decoding what the upload path encodes gives
  the object back: \<^verbatim>\<open>pickle.loads(zlib.decompress(c, 31))\<close> is the object, where
  \<open>c\<close> is the payload of \<^verbatim>\<open>__get_compressed_picke\<close>, and \<^verbatim>\<open>pull_custom_object\<close>
  returns the object when the service answers with that payload. The libraries are
  taken at their contracts: \<^verbatim>\<open>pickle.loads\<close> inverts \<^verbatim>\<open>cloudpickle.dumps\<close> on this
  object, and \<^verbatim>\<open>zlib.decompress(_, 31)\<close> inverts the output of a
  \<^verbatim>\<open>compressobj(-1, DEFLATED, 31)\<close>, \<^verbatim>\<open>compress\<close> followed by \<^verbatim>\<open>flush\<close>.
\<close>

theorem custom_object_roundtrip:
  assumes pickle: "\<And>b. cloudpickle_dumps e obj (- 1) = Inr b \<Longrightarrow> pickle_loads e b = Inr obj"
      and zlib: "\<And>d. zlib_decompress e
                     (fst (zlib_compress e (zlib_compressobj (- 1) zlib_DEFLATED 31) d) @
                      zlib_flush e (snd (zlib_compress e (zlib_compressobj (- 1) zlib_DEFLATED 31) d)))
                     31 = Inr d"
      and enc: "fst (get_compressed_picke e obj) = Inr (c, filesize)"
      and uuid: "is_uuid4_pattern e s"
  shows "(case zlib_decompress e c 31 of Inl err \<Rightarrow> Inl err | Inr b \<Rightarrow> pickle_loads e b)
           = Inr obj \<and>
         fst (pull_custom_object
                (e\<lparr>respond := (\<lambda>r. \<lparr>status_code = 200, content = c, resp_text = []\<rparr>)\<rparr>)
                (self\<lparr>tracking := True, rest := Some r\<rparr>) (PStr s)) = Inr obj"
proof -
  from enc obtain p where p: "cloudpickle_dumps e obj (- 1) = Inr p"
    by (cases "cloudpickle_dumps e obj (- 1)") (simp_all add: get_compressed_picke_def)
  from enc p have c: "c = fst (zlib_compress e (zlib_compressobj (- 1) zlib_DEFLATED 31) p) @
                      zlib_flush e (snd (zlib_compress e (zlib_compressobj (- 1) zlib_DEFLATED 31) p))"
    by (simp add: get_compressed_picke_def Let_def split: prod.splits)
  have d: "zlib_decompress e c 31 = Inr p"
    unfolding c by (rule zlib)
  have l: "pickle_loads e p = Inr obj"
    using p by (rule pickle)
  show ?thesis
    using d l uuid by (simp add: pull_custom_object_def Let_def)
qed

theorem custom_object_roundtrip_witness:
  "fst (get_compressed_picke example_env (PBytes [1, 2, 3])) = Inr ([31, 1, 2, 3], 36) \<and>
   is_uuid4_pattern example_env example_uuid \<and>
   fst (pull_custom_object
          (example_env\<lparr>respond := (\<lambda>r. \<lparr>status_code = 200, content = [31, 1, 2, 3],
                                          resp_text = []\<rparr>)\<rparr>)
          (example_tracker\<lparr>tracking := True, rest := rest example_tracker\<rparr>)
          (PStr example_uuid)) = Inr (PBytes [1, 2, 3])"
proof -
  have pickle: "\<And>b. cloudpickle_dumps example_env (PBytes [1, 2, 3]) (- 1) = Inr b \<Longrightarrow>
                    pickle_loads example_env b = Inr (PBytes [1, 2, 3])"
    by (simp add: example_env_def)
  have zlib: "\<And>d. zlib_decompress example_env
                     (fst (zlib_compress example_env (zlib_compressobj (- 1) zlib_DEFLATED 31) d) @
                      zlib_flush example_env
                        (snd (zlib_compress example_env (zlib_compressobj (- 1) zlib_DEFLATED 31) d)))
                     31 = Inr d"
    by (simp add: example_env_def zlib_compressobj_def)
  have enc: "fst (get_compressed_picke example_env (PBytes [1, 2, 3])) = Inr ([31, 1, 2, 3], 36)"
    by (simp add: get_compressed_picke_def example_env_def zlib_compressobj_def Let_def)
  have uuid: "is_uuid4_pattern example_env example_uuid"
    by (simp add: example_env_def example_uuid_def)
  have r: "rest example_tracker
             = Some \<lparr>address = ''http://localhost/'', rest_key = ''secret'',
                     rest_experiment_name = PNone, project_id = PInt 7, model_id = PInt 3\<rparr>"
    by (simp add: example_tracker_def)
  show ?thesis
    using custom_object_roundtrip [OF pickle zlib enc uuid, where self = example_tracker
            and r = "\<lparr>address = ''http://localhost/'', rest_key = ''secret'',
              rest_experiment_name = PNone, project_id = PInt 7, model_id = PInt 3\<rparr>"]
          enc uuid
    by (simp add: r)
qed

section \<open>The order of delivery\<close>

lemma attempt_sent: "fst (attempt conn i spins x) = [] \<or> fst (attempt conn i spins x) = [x]"
  by (induction conn i spins x rule: attempt.induct) (auto split: connection_state.splits)

lemma dispatcher_loop_items:
  "dispatcher_loop conn spins i q =
     (case items q of [] \<Rightarrow> []
      | x # xs \<Rightarrow> fst (attempt conn i spins x) @
                  dispatcher_loop conn spins (snd (attempt conn i spins x)) (q\<lparr>items := xs\<rparr>))"
  by (subst dispatcher_loop.simps) (simp add: dequeue_def split: list.splits prod.splits)

lemma dispatcher_loop_subseq:
  "items q = xs \<Longrightarrow> subseq (dispatcher_loop conn spins i q) xs"
proof (induction xs arbitrary: q i)
  case Nil
  then show ?case by (subst dispatcher_loop_items) simp
next
  case (Cons x xs)
  have rest: "subseq (dispatcher_loop conn spins (snd (attempt conn i spins x)) (q\<lparr>items := xs\<rparr>)) xs"
    by (rule Cons.IH) simp
  show ?case
    using attempt_sent [of conn i spins x] Cons.prems rest
    by (subst dispatcher_loop_items) auto
qed

lemma dispatcher_loop_connected:
  "items q = xs \<Longrightarrow> \<forall>j. conn j = CONNECTED \<Longrightarrow> 0 < spins \<Longrightarrow>
     dispatcher_loop conn spins i q = xs"
proof (induction xs arbitrary: q i)
  case Nil
  then show ?case by (subst dispatcher_loop_items) simp
next
  case (Cons x xs)
  from Cons.prems obtain s where s: "spins = Suc s" by (cases spins) auto
  have a: "attempt conn i spins x = ([x], Suc i)"
    using Cons.prems(2) by (simp add: s)
  have "dispatcher_loop conn spins (Suc i) (q\<lparr>items := xs\<rparr>) = xs"
    by (rule Cons.IH) (use Cons.prems in simp_all)
  then show ?case
    using Cons.prems(1) by (subst dispatcher_loop_items) (simp add: a)
qed

lemma enqueue_all_items:
  "items (enqueue_all calls q) =
     items q @ map (\<lambda>(j, ev). \<lparr>q_event = ev, sequence_number = j\<rparr>)
                  (enumerate (next_sequence_number q) (map snd calls))"
  by (induction calls q rule: enqueue_all.induct) (simp_all add: enqueue_def)

lemma enqueue_all_events:
  "map q_event (items (enqueue_all calls empty_queue)) = map snd calls"
  by (simp add: enqueue_all_items empty_queue_def comp_def case_prod_unfold)

lemma enqueue_all_sequence_numbers:
  "map sequence_number (items (enqueue_all calls empty_queue)) = [0..<length calls]"
  by (simp add: enqueue_all_items empty_queue_def comp_def case_prod_unfold map_fst_enumerate)

lemma subseq_sorted_wrt: "subseq xs ys \<Longrightarrow> sorted_wrt P ys \<Longrightarrow> sorted_wrt P xs"
proof (induction rule: list_emb.induct)
  case (list_emb_Nil ys)
  then show ?case by simp
next
  case (list_emb_Cons xs ys y)
  then show ?case by simp
next
  case (list_emb_Cons2 x y xs ys)
  have "set xs \<subseteq> set ys"
    using list_emb_Cons2.hyps(2) by (auto elim: list_emb_set)
  with list_emb_Cons2 show ?case by auto
qed

text \<open>
  Claim C1. For any sequence of events enqueued by any number of producers, the
  events the dispatcher hands to the streaming transport's \<open>send\<close> are in
  non-decreasing order of sequence number and follow the enqueue order (they are a
  subsequence of it, whatever the connection does); and when the transport is
  connected the sequence of sends equals the enqueue order.
\<close>

theorem sends_follow_enqueue_order:
  "sorted (map sequence_number
      (dispatcher_loop conn spins i (enqueue_all calls empty_queue))) \<and>
   subseq (map q_event (dispatcher_loop conn spins i (enqueue_all calls empty_queue)))
      (map snd calls) \<and>
   ((\<forall>j. conn j = CONNECTED) \<and> 0 < spins \<longrightarrow>
      map q_event (dispatcher_loop conn spins i (enqueue_all calls empty_queue))
        = map snd calls)"
proof (intro conjI impI)
  let ?q = "enqueue_all calls empty_queue"
  have sub: "subseq (dispatcher_loop conn spins i ?q) (items ?q)"
    by (rule dispatcher_loop_subseq) simp
  have "sorted_wrt (<) (map sequence_number (items ?q))"
    by (simp add: enqueue_all_sequence_numbers)
  then have "sorted_wrt (<) (map sequence_number (dispatcher_loop conn spins i ?q))"
    using subseq_sorted_wrt [OF subseq_map [OF sub]] by blast
  then show "sorted (map sequence_number (dispatcher_loop conn spins i ?q))"
    by (rule strict_sorted_imp_sorted)
  show "subseq (map q_event (dispatcher_loop conn spins i ?q)) (map snd calls)"
    using subseq_map [OF sub, of q_event] by (simp add: enqueue_all_events)
next
  assume "(\<forall>j. conn j = CONNECTED) \<and> 0 < spins"
  then have "dispatcher_loop conn spins i (enqueue_all calls empty_queue)
               = items (enqueue_all calls empty_queue)"
    using dispatcher_loop_connected by blast
  then show "map q_event (dispatcher_loop conn spins i (enqueue_all calls empty_queue))
               = map snd calls"
    by (simp add: enqueue_all_events)
qed

theorem sends_follow_enqueue_order_witness:
  "(\<forall>j. (\<lambda>j. CONNECTED) j = CONNECTED) \<and> (0::nat) < 3 \<and>
   map q_event
     (dispatcher_loop (\<lambda>j. CONNECTED) 3 0
        (enqueue_all
           [(0, \<lparr>ev_type = EXPERIMENT_START, ev_value = PStr ''2019-01-01 10:00:00'',
                 ev_epoch = None\<rparr>),
            (1, \<lparr>ev_type = MODEL_PARAM, ev_value = PDict [(PStr ''lr'', PInt 1)],
                 ev_epoch = None\<rparr>),
            (0, \<lparr>ev_type = EXPERIMENT_END, ev_value = PStr ''2019-01-01 11:00:00'',
                 ev_epoch = None\<rparr>)]
           empty_queue))
     = [\<lparr>ev_type = EXPERIMENT_START, ev_value = PStr ''2019-01-01 10:00:00'',
         ev_epoch = None\<rparr>,
        \<lparr>ev_type = MODEL_PARAM, ev_value = PDict [(PStr ''lr'', PInt 1)], ev_epoch = None\<rparr>,
        \<lparr>ev_type = EXPERIMENT_END, ev_value = PStr ''2019-01-01 11:00:00'',
         ev_epoch = None\<rparr>]"
  using sends_follow_enqueue_order
          [of "\<lambda>j. CONNECTED" 3 0
              "[(0, \<lparr>ev_type = EXPERIMENT_START, ev_value = PStr ''2019-01-01 10:00:00'',
                     ev_epoch = None\<rparr>),
                (1, \<lparr>ev_type = MODEL_PARAM, ev_value = PDict [(PStr ''lr'', PInt 1)],
                     ev_epoch = None\<rparr>),
                (0, \<lparr>ev_type = EXPERIMENT_END, ev_value = PStr ''2019-01-01 11:00:00'',
                     ev_epoch = None\<rparr>)]"]
  by simp

end
